theory Spec2Isabelle
  imports Main "HOL-Library.Word" "HOL-Library.Multiset"
begin

section \<open>Data model of the checkup package\<close>

text \<open>
  The Kubernetes API types are third-party declarations; only the fields that the
  detectors and the scanner read are kept. A Go pointer field that may be nil is an
  \<open>option\<close>. Field names that Go repeats in several structs carry a prefix here.
\<close>

datatype Severity = SeverityError | SeverityWarning

text \<open>
  \<open>metav1.Time\<close> wraps \<open>time.Time\<close>. The detectors only print it with the verb
  \<open>%s\<close>, i.e. through the library's \<open>String()\<close> method, so a time is represented by
  that rendering.
\<close>

datatype Time = Time (TimeString: string)

record ContainerStateWaiting =
  WaitingReason :: string
  WaitingMessage :: string

record ContainerStateTerminated =
  TerminatedReason :: string
  TerminatedMessage :: string
  FinishedAt :: Time

record ContainerState =
  Waiting :: "ContainerStateWaiting option"
  Terminated :: "ContainerStateTerminated option"

record ContainerStatus =
  StatusName :: string
  State :: ContainerState
  LastTerminationState :: ContainerState
  Ready :: bool
  RestartCount :: "32 word"

record Container =
  ContainerName :: string
  Image :: string

text \<open>\<open>corev1.PodPhase\<close> is a string type; \<open>PodRunning\<close> and \<open>PodPending\<close> are its constants.\<close>

definition PodRunning :: string where
  "PodRunning = ''Running''"

definition PodPending :: string where
  "PodPending = ''Pending''"

record Pod =
  PodName :: string
  PodNamespace :: string
  PodLabels :: "string \<rightharpoonup> string"
  Containers :: "Container list"
  InitContainers :: "Container list"
  Phase :: string
  ContainerStatuses :: "ContainerStatus list"
  InitContainerStatuses :: "ContainerStatus list"

record HorizontalPodAutoscaler =
  HPAName :: string
  HPANamespace :: string
  HPALabels :: "string \<rightharpoonup> string"
  MaxReplicas :: "32 word"
  CurrentReplicas :: "32 word"

text \<open>
  \<open>runtime.Object\<close> is an interface; the type assertions of the detectors tell a pod
  from an autoscaler from anything else. The scanner passes the addresses of the items of
  a listing, so the pointer inside the interface is never nil.
\<close>

datatype Object =
    PodObject Pod
  | HPAObject HorizontalPodAutoscaler
  | OtherObject

text \<open>
  Go's \<open>int\<close> is taken at its 64-bit width, that of the platforms the tool is built
  for; \<open>Run\<close> is always called with the configuration set by the command's action, so
  the \<open>*Config\<close> handed to a detector is not nil.
\<close>

record Config =
  RestartThreshold :: "64 word"

datatype error = NilPointerDereference | NilMapWrite

text \<open>A detector returns \<open>(resourceSpecificReason, warning, isOccurring)\<close> or panics.\<close>

type_synonym detection = "string \<times> bool \<times> bool"

text \<open>The context argument of a detector is consulted by none of them and is left out.\<close>

record Problem =
  ID :: string
  ShortDescription :: string
  HelpURL :: string
  Detector :: "Object \<Rightarrow> Config \<Rightarrow> error + detection"

record Resource =
  Name :: string
  Owner :: string
  Type :: string
  ProblemID :: string
  ProblemDetails :: string
  Warning :: bool

record Report =
  Problems :: "Problem list"
  Resources :: "Resource list"

section \<open>Formatting\<close>

text \<open>The verb \<open>%d\<close> of \<open>fmt.Sprintf\<close> on a signed integer: decimal digits, with a minus sign.\<close>

fun digits :: "nat \<Rightarrow> string" where
  "digits n = (if n < 10 then [''0123456789'' ! n]
               else digits (n div 10) @ [''0123456789'' ! (n mod 10)])"

declare digits.simps [simp del]

definition fmt_d :: "int \<Rightarrow> string" where
  "fmt_d i = (if i < 0 then ''-'' @ digits (nat (- i)) else digits (nat i))"

section \<open>Detectors of k8r.go\<close>

definition MaxedOutHPAs_Detector :: "Object \<Rightarrow> Config \<Rightarrow> error + detection" where
  "MaxedOutHPAs_Detector obj cfg =
     (case obj of
        HPAObject hpa \<Rightarrow>
          if MaxReplicas hpa = CurrentReplicas hpa
          then Inr (HPAName hpa @ '' has '' @ fmt_d (sint (CurrentReplicas hpa)) @ ''/''
                      @ fmt_d (sint (MaxReplicas hpa)) @ '' replicas'', True, True)
          else Inr ('''', False, False)
      | _ \<Rightarrow> Inr ('''', False, False))"

definition ProblemMaxedOutHPAs :: Problem where
  "ProblemMaxedOutHPAs =
     \<lparr>ID = ''MaxedOutHPAs'',
      ShortDescription = ''A pod's HPAs current replicas is equal to its max'',
      HelpURL = ''https://github.com/Ashvin-Ranjan/k8r/wiki/MaxedOutHPAs'',
      Detector = MaxedOutHPAs_Detector\<rparr>"

text \<open>
  \<open>int32(cfg.RestartThreshold)\<close> keeps the low 32 bits of the threshold; the comparison
  is the signed one of \<open>int32\<close>.
\<close>

fun HighRestarts_loop :: "string \<Rightarrow> 32 word \<Rightarrow> ContainerStatus list \<Rightarrow> detection option" where
  "HighRestarts_loop name t [] = None"
| "HighRestarts_loop name t (cs # rest) =
     (if sint t \<le> sint (RestartCount cs)
      then Some (''Container '' @ name @ '' has restarted '' @ fmt_d (sint (RestartCount cs))
                   @ '' time(s)'', True, True)
      else HighRestarts_loop name t rest)"

definition HighRestarts_Detector :: "Object \<Rightarrow> Config \<Rightarrow> error + detection" where
  "HighRestarts_Detector obj cfg =
     (case obj of
        PodObject pod \<Rightarrow>
          (case HighRestarts_loop (PodName pod) (ucast (RestartThreshold cfg))
                  (ContainerStatuses pod) of
             Some r \<Rightarrow> Inr r
           | None \<Rightarrow> Inr ('''', False, False))
      | _ \<Rightarrow> Inr ('''', False, False))"

definition ProblemHighRestarts :: Problem where
  "ProblemHighRestarts =
     \<lparr>ID = ''HighRestarts'',
      ShortDescription = ''A pod keeps restarting which can indicate a problem'',
      HelpURL = ''https://github.com/Ashvin-Ranjan/k8r/wiki/HighRestarts'',
      Detector = HighRestarts_Detector\<rparr>"

section \<open>Detectors of existing\_checks.go\<close>

definition isCrashLoopBackoff :: "ContainerStatus \<Rightarrow> bool" where
  "isCrashLoopBackoff cs =
     (case Waiting (State cs) of
        None \<Rightarrow> False
      | Some w \<Rightarrow> WaitingReason w = ''CrashLoopBackOff'')"

text \<open>
  Both loops of the crash-loop detector read \<open>cs.LastTerminationState.Terminated.Message\<close>
  with no nil check: a nil \<open>Terminated\<close> pointer is a run-time panic. The two loops differ
  in the prefix of the message only. \<open>None\<close> means the loop ended without returning.
\<close>

fun CrashLoopBackOff_loop :: "string \<Rightarrow> ContainerStatus list \<Rightarrow> (error + detection) option" where
  "CrashLoopBackOff_loop prefix [] = None"
| "CrashLoopBackOff_loop prefix (cs # rest) =
     (if isCrashLoopBackoff cs
      then (case Terminated (LastTerminationState cs) of
              None \<Rightarrow> Some (Inl NilPointerDereference)
            | Some t \<Rightarrow>
                Some (Inr (prefix @ StatusName cs @ '' in a crash loop backoff state: ''
                             @ TerminatedMessage t, False, True)))
      else CrashLoopBackOff_loop prefix rest)"

definition PodCrashLoopBackOff_Detector :: "Object \<Rightarrow> Config \<Rightarrow> error + detection" where
  "PodCrashLoopBackOff_Detector obj cfg =
     (case obj of
        PodObject pod \<Rightarrow>
          (case CrashLoopBackOff_loop ''Container '' (ContainerStatuses pod) of
             Some r \<Rightarrow> r
           | None \<Rightarrow>
               (case CrashLoopBackOff_loop ''Init container '' (InitContainerStatuses pod) of
                  Some r \<Rightarrow> r
                | None \<Rightarrow> Inr ('''', False, False)))
      | _ \<Rightarrow> Inr ('''', False, False))"

definition ProblemPodCrashLoopBackOff :: Problem where
  "ProblemPodCrashLoopBackOff =
     \<lparr>ID = ''PodCrashLoopBackOff'',
      ShortDescription =
        ''A pod is in a crash loop backoff state, meaning it is crashing repeatedly'',
      HelpURL = '''',
      Detector = PodCrashLoopBackOff_Detector\<rparr>"

fun NotReady_loop :: "ContainerStatus list \<Rightarrow> detection option" where
  "NotReady_loop [] = None"
| "NotReady_loop (cs # rest) =
     (if \<not> Ready cs
      then Some (''Container '' @ StatusName cs @ '' is not ready'', False, True)
      else NotReady_loop rest)"

definition PodNotReady_Detector :: "Object \<Rightarrow> Config \<Rightarrow> error + detection" where
  "PodNotReady_Detector obj cfg =
     (case obj of
        PodObject pod \<Rightarrow>
          if Phase pod \<noteq> PodRunning then Inr ('''', False, False)
          else (case NotReady_loop (ContainerStatuses pod) of
                  Some r \<Rightarrow> Inr r
                | None \<Rightarrow> Inr ('''', False, False))
      | _ \<Rightarrow> Inr ('''', False, False))"

definition ProblemPodNotReady :: Problem where
  "ProblemPodNotReady =
     \<lparr>ID = ''PodNotReady'',
      ShortDescription = ''A pod is not ready which can indicate a problem with the pod'',
      HelpURL = '''',
      Detector = PodNotReady_Detector\<rparr>"

definition isImagePullBackOff :: "ContainerStatus \<Rightarrow> bool" where
  "isImagePullBackOff cs =
     (case Waiting (State cs) of
        None \<Rightarrow> False
      | Some w \<Rightarrow> WaitingReason w = ''ImagePullBackOff'' \<or> WaitingReason w = ''ErrImagePull'')"

definition getImageForContainerStatus :: "Pod \<Rightarrow> bool \<Rightarrow> ContainerStatus \<Rightarrow> string" where
  "getImageForContainerStatus pod isInitContainer cs =
     (let sl = (if isInitContainer then InitContainers pod else Containers pod)
      in case find (\<lambda>c. ContainerName c = StatusName cs) sl of
           None \<Rightarrow> ''unknown''
         | Some container \<Rightarrow> Image container)"

fun ImagePullBackOff_loop :: "Pod \<Rightarrow> bool \<Rightarrow> ContainerStatus list \<Rightarrow> detection option" where
  "ImagePullBackOff_loop pod isInit [] = None"
| "ImagePullBackOff_loop pod isInit (cs # rest) =
     (let imageName = getImageForContainerStatus pod isInit cs
      in if isImagePullBackOff cs
         then Some (''Container '' @ StatusName cs @ '' is failing to pull its image (''
                      @ imageName @ '')'', False, True)
         else ImagePullBackOff_loop pod isInit rest)"

definition PodImagePullBackOff_Detector :: "Object \<Rightarrow> Config \<Rightarrow> error + detection" where
  "PodImagePullBackOff_Detector obj cfg =
     (case obj of
        PodObject pod \<Rightarrow>
          (case ImagePullBackOff_loop pod False (ContainerStatuses pod) of
             Some r \<Rightarrow> Inr r
           | None \<Rightarrow>
               (case ImagePullBackOff_loop pod True (InitContainerStatuses pod) of
                  Some r \<Rightarrow> Inr r
                | None \<Rightarrow> Inr ('''', False, False)))
      | _ \<Rightarrow> Inr ('''', False, False))"

definition ProblemPodImagePullBackOff :: Problem where
  "ProblemPodImagePullBackOff =
     \<lparr>ID = ''PodImagePullBackOff'',
      ShortDescription =
        ''A pod is in a image pull backoff state, meaning it is unable to pull the image'',
      HelpURL = '''',
      Detector = PodImagePullBackOff_Detector\<rparr>"

definition currentOOMKilled :: "ContainerStatus \<Rightarrow> bool" where
  "currentOOMKilled cs =
     (case Terminated (State cs) of
        None \<Rightarrow> False
      | Some t \<Rightarrow> TerminatedReason t = ''OOMKilled'')"

definition lastOOMKilled :: "ContainerStatus \<Rightarrow> bool" where
  "lastOOMKilled cs =
     (case Terminated (LastTerminationState cs) of
        None \<Rightarrow> False
      | Some t \<Rightarrow> TerminatedReason t = ''OOMKilled'')"

text \<open>
  One loop over the container statuses; each iteration tests the current state first and
  the last termination state second, and returns at the first test that holds.
\<close>

fun OOMKilled_loop :: "ContainerStatus list \<Rightarrow> detection option" where
  "OOMKilled_loop [] = None"
| "OOMKilled_loop (cs # rest) =
     (if currentOOMKilled cs
      then Some (''Container '' @ StatusName cs
                   @ '' was killed because it ran out of memory'', False, True)
      else (case Terminated (LastTerminationState cs) of
              Some t \<Rightarrow>
                if TerminatedReason t = ''OOMKilled''
                then Some (''Container '' @ StatusName cs
                             @ '' was recently killed because it ran out of memory: ''
                             @ TimeString (FinishedAt t), True, True)
                else OOMKilled_loop rest
            | None \<Rightarrow> OOMKilled_loop rest))"

definition PodOOMKilled_Detector :: "Object \<Rightarrow> Config \<Rightarrow> error + detection" where
  "PodOOMKilled_Detector obj cfg =
     (case obj of
        PodObject pod \<Rightarrow>
          (case OOMKilled_loop (ContainerStatuses pod) of
             Some r \<Rightarrow> Inr r
           | None \<Rightarrow> Inr ('''', False, False))
      | _ \<Rightarrow> Inr ('''', False, False))"

definition ProblemPodOOMKilled :: Problem where
  "ProblemPodOOMKilled =
     \<lparr>ID = ''PodOOMKilled'',
      ShortDescription = ''A pod was killed because it ran out of memory recently'',
      HelpURL = '''',
      Detector = PodOOMKilled_Detector\<rparr>"

fun Pending_loop :: "string \<Rightarrow> ContainerStatus list \<Rightarrow> detection option" where
  "Pending_loop prefix [] = None"
| "Pending_loop prefix (cs # rest) =
     (case Waiting (State cs) of
        Some w \<Rightarrow>
          Some (prefix @ StatusName cs @ '' is pending: '' @ WaitingMessage w, False, True)
      | None \<Rightarrow> Pending_loop prefix rest)"

definition PodPending_Detector :: "Object \<Rightarrow> Config \<Rightarrow> error + detection" where
  "PodPending_Detector obj cfg =
     (case obj of
        PodObject pod \<Rightarrow>
          if Phase pod \<noteq> PodPending then Inr ('''', False, False)
          else (case Pending_loop ''Container '' (ContainerStatuses pod) of
                  Some r \<Rightarrow> Inr r
                | None \<Rightarrow>
                    (case Pending_loop ''Init container '' (InitContainerStatuses pod) of
                       Some r \<Rightarrow> Inr r
                     | None \<Rightarrow> Inr ('''', False, False)))
      | _ \<Rightarrow> Inr ('''', False, False))"

definition ProblemPodPending :: Problem where
  "ProblemPodPending =
     \<lparr>ID = ''PodPending'',
      ShortDescription = ''A pod is pending'',
      HelpURL = '''',
      Detector = PodPending_Detector\<rparr>"

section \<open>The catalog\<close>

definition enabledPodProblems :: "Problem list" where
  "enabledPodProblems =
     [ProblemPodCrashLoopBackOff, ProblemPodNotReady, ProblemPodImagePullBackOff,
      ProblemPodOOMKilled, ProblemHighRestarts]"

definition enabledHPAProblems :: "Problem list" where
  "enabledHPAProblems = [ProblemMaxedOutHPAs]"

definition enabledProblems :: "Problem list" where
  "enabledProblems = enabledPodProblems @ enabledHPAProblems"

section \<open>The scanner\<close>

text \<open>Indexing a Go map of strings with a missing key gives the empty string.\<close>

definition label :: "(string \<rightharpoonup> string) \<Rightarrow> string \<Rightarrow> string" where
  "label labels k = (case labels k of None \<Rightarrow> '''' | Some v \<Rightarrow> v)"

text \<open>
  The loop over a sub-catalog shared by \<open>getPodsWithProblems\<close> and
  \<open>getHPAsWithProblems\<close>: \<open>problems\<close> is the slice built so far, \<open>defaultProblem\<close>
  the prefilled record. A panic of a detector ends the loop.
\<close>

fun detect_loop ::
  "Problem list \<Rightarrow> Object \<Rightarrow> Config \<Rightarrow> Resource \<Rightarrow> Resource list \<Rightarrow> error + Resource list" where
  "detect_loop [] obj cfg defaultProblem problems = Inr problems"
| "detect_loop (problem # rest) obj cfg defaultProblem problems =
     (case Detector problem obj cfg of
        Inl e \<Rightarrow> Inl e
      | Inr (resourceDetails, warning, occurring) \<Rightarrow>
          if \<not> occurring then detect_loop rest obj cfg defaultProblem problems
          else detect_loop rest obj cfg defaultProblem
                 (problems @ [defaultProblem\<lparr>ProblemID := ID problem,
                                             ProblemDetails := resourceDetails,
                                             Warning := warning\<rparr>]))"

definition getPodsWithProblems :: "Config \<Rightarrow> Pod \<Rightarrow> error + (Resource list \<times> bool)" where
  "getPodsWithProblems cfg pod =
     (let defaultProblem =
            \<lparr>Name = PodNamespace pod @ ''/'' @ PodName pod,
             Owner = label (PodLabels pod) ''reporting_team'',
             Type = ''pod'',
             ProblemID = '''', ProblemDetails = '''', Warning = False\<rparr>
      in case detect_loop enabledPodProblems (PodObject pod) cfg defaultProblem [] of
           Inl e \<Rightarrow> Inl e
         | Inr problems \<Rightarrow> Inr (problems, 0 < length problems))"

definition getHPAsWithProblems ::
  "Config \<Rightarrow> HorizontalPodAutoscaler \<Rightarrow> error + (Resource list \<times> bool)" where
  "getHPAsWithProblems cfg hpa =
     (let defaultProblem =
            \<lparr>Name = HPANamespace hpa @ ''/'' @ HPAName hpa,
             Owner = label (HPALabels hpa) ''reporting_team'',
             Type = ''HPA'',
             ProblemID = '''', ProblemDetails = '''', Warning = False\<rparr>
      in case detect_loop enabledHPAProblems (HPAObject hpa) cfg defaultProblem [] of
           Inl e \<Rightarrow> Inl e
         | Inr problems \<Rightarrow> Inr (problems, 0 < length problems))"

section \<open>The report (problem.go)\<close>

definition GetProblemByID :: "Report \<Rightarrow> string \<Rightarrow> Problem option" where
  "GetProblemByID r ident = find (\<lambda>problem. ID problem = ident) (Problems r)"

text \<open>
  \<open>rtrn[k] = append(rtrn[k], resource)\<close>: a missing key reads as the nil slice. The
  buckets hold pointers into \<open>r.Resources\<close>; the model holds the records pointed to.
\<close>

definition bucket_append ::
  "(string \<rightharpoonup> Resource list) \<Rightarrow> string \<Rightarrow> Resource \<Rightarrow> (string \<rightharpoonup> Resource list)" where
  "bucket_append rtrn k resource =
     rtrn(k \<mapsto> (case rtrn k of None \<Rightarrow> [] | Some l \<Rightarrow> l) @ [resource])"

fun ByProblem_inner ::
  "Problem \<Rightarrow> Resource list \<Rightarrow> (string \<rightharpoonup> Resource list) \<Rightarrow> (string \<rightharpoonup> Resource list)" where
  "ByProblem_inner problem [] rtrn = rtrn"
| "ByProblem_inner problem (resource # rest) rtrn =
     ByProblem_inner problem rest
       (if ProblemID resource = ID problem
        then bucket_append rtrn (ID problem) resource
        else rtrn)"

fun ByProblem_outer ::
  "Problem list \<Rightarrow> Resource list \<Rightarrow> (string \<rightharpoonup> Resource list) \<Rightarrow> (string \<rightharpoonup> Resource list)" where
  "ByProblem_outer [] resources rtrn = rtrn"
| "ByProblem_outer (problem # rest) resources rtrn =
     ByProblem_outer rest resources (ByProblem_inner problem resources rtrn)"

definition ByProblem :: "Report \<Rightarrow> (string \<rightharpoonup> Resource list)" where
  "ByProblem r = ByProblem_outer (Problems r) (Resources r) Map.empty"

type_synonym severity_index = "Severity \<rightharpoonup> (string \<rightharpoonup> Resource list)"

text \<open>
  \<open>rtrn[sev][k] = append(rtrn[sev][k], resource)\<close>: the inner map is shared, so the
  write shows under \<open>rtrn[sev]\<close>; were \<open>rtrn[sev]\<close> missing, the inner map would be nil
  and the assignment a panic.
\<close>

definition severity_append ::
  "severity_index \<Rightarrow> Severity \<Rightarrow> string \<Rightarrow> Resource \<Rightarrow> error + severity_index" where
  "severity_append rtrn sev k resource =
     (case rtrn sev of
        None \<Rightarrow> Inl NilMapWrite
      | Some inner \<Rightarrow> Inr (rtrn(sev \<mapsto> bucket_append inner k resource)))"

fun BySeverity_inner ::
  "Problem \<Rightarrow> Resource list \<Rightarrow> severity_index \<Rightarrow> error + severity_index" where
  "BySeverity_inner problem [] rtrn = Inr rtrn"
| "BySeverity_inner problem (resource # rest) rtrn =
     (if ProblemID resource = ID problem
      then (case (if \<not> Warning resource
                  then severity_append rtrn SeverityError (ID problem) resource
                  else severity_append rtrn SeverityWarning (ID problem) resource) of
              Inl e \<Rightarrow> Inl e
            | Inr rtrn' \<Rightarrow> BySeverity_inner problem rest rtrn')
      else BySeverity_inner problem rest rtrn)"

fun BySeverity_outer ::
  "Problem list \<Rightarrow> Resource list \<Rightarrow> severity_index \<Rightarrow> error + severity_index" where
  "BySeverity_outer [] resources rtrn = Inr rtrn"
| "BySeverity_outer (problem # rest) resources rtrn =
     (case BySeverity_inner problem resources rtrn of
        Inl e \<Rightarrow> Inl e
      | Inr rtrn' \<Rightarrow> BySeverity_outer rest resources rtrn')"

definition BySeverity :: "Report \<Rightarrow> error + severity_index" where
  "BySeverity r =
     BySeverity_outer (Problems r) (Resources r)
       ((Map.empty(SeverityError \<mapsto> Map.empty))(SeverityWarning \<mapsto> Map.empty))"

text \<open>
  \<open>problemHM\<close> is the set of IDs already added. The inner loop over \<open>enabledProblems\<close>
  stops at the first entry with the record's ID, which is \<open>find\<close>.
\<close>

fun ReportFromResources_loop ::
  "Resource list \<Rightarrow> string set \<Rightarrow> Problem list \<Rightarrow> Problem list" where
  "ReportFromResources_loop [] problemHM problems = problems"
| "ReportFromResources_loop (resource # rest) problemHM problems =
     (if ProblemID resource \<in> problemHM
      then ReportFromResources_loop rest problemHM problems
      else (case find (\<lambda>enabled. ID enabled = ProblemID resource) enabledProblems of
              Some enabled \<Rightarrow>
                ReportFromResources_loop rest (insert (ID enabled) problemHM)
                  (problems @ [enabled])
            | None \<Rightarrow> ReportFromResources_loop rest problemHM problems))"

definition ReportFromResources :: "Resource list \<Rightarrow> Report" where
  "ReportFromResources resources =
     \<lparr>Problems = ReportFromResources_loop resources {} [],
      Resources = resources\<rparr>"

text \<open>
  The methods have a pointer receiver. Neither assigns through it, so the report after
  the call is the report before it.
\<close>

definition ByProblem_call :: "Report \<Rightarrow> (string \<rightharpoonup> Resource list) \<times> Report" where
  "ByProblem_call r = (ByProblem r, r)"

definition BySeverity_call :: "Report \<Rightarrow> (error + severity_index) \<times> Report" where
  "BySeverity_call r = (BySeverity r, r)"

section \<open>The checkup command\<close>

text \<open>
  What the cluster client, an external library, hands to \<open>Run\<close>: the error of
  \<open>kube.GetKubeClient\<close> if there is one, and the two listings, each an error message or
  the items.
\<close>

record Cluster =
  GetKubeClient :: "string option"
  ListPods :: "string + Pod list"
  ListHPAs :: "string + HorizontalPodAutoscaler list"

text \<open>
  What \<open>Run\<close> writes to standard output, one value per line of content, with the
  data printed: \<open>ProblemLine\<close> has the severity that picks the colour, the problem ID,
  its short description, the number of occurrences and the plural suffix;
  \<open>ResourceLine\<close> has the message of one resource; \<open>HelpLine\<close> has the problem ID
  and the help URL. Blank lines, colours, bold face and column alignment are left out.
\<close>

datatype Printed =
    Checking
  | Done
  | EverythingLooksGood
  | ProblemsFound
  | ProblemLine Severity string string nat string
  | ResourceLine string
  | MoreInformation
  | HelpLine string string

text \<open>How a call of \<open>Run\<close> ends: it returns an error or nil, calls \<open>os.Exit\<close>, or panics.\<close>

datatype Outcome =
    ReturnError string
  | ReturnNil
  | Exit int
  | Panic error

text \<open>
  Go leaves the order in which \<open>range\<close> visits the keys of a map unspecified. The order
  is a parameter of the model: the lists name the keys in the order of the visit, and a
  name that is not a key of the map is passed over.
\<close>

record IterationOrder =
  severityOrder :: "Severity list"
  problemOrder :: "Severity \<Rightarrow> string list"
  helpOrder :: "string list"

fun scan_pods :: "Config \<Rightarrow> Pod list \<Rightarrow> Resource list \<Rightarrow> error + Resource list" where
  "scan_pods cfg [] resourceProblems = Inr resourceProblems"
| "scan_pods cfg (p # rest) resourceProblems =
     (case getPodsWithProblems cfg p of
        Inl e \<Rightarrow> Inl e
      | Inr (rs, is) \<Rightarrow>
          scan_pods cfg rest (if is then resourceProblems @ rs else resourceProblems))"

fun scan_hpas ::
  "Config \<Rightarrow> HorizontalPodAutoscaler list \<Rightarrow> Resource list \<Rightarrow> error + Resource list" where
  "scan_hpas cfg [] resourceProblems = Inr resourceProblems"
| "scan_hpas cfg (h # rest) resourceProblems =
     (case getHPAsWithProblems cfg h of
        Inl e \<Rightarrow> Inl e
      | Inr (rs, is) \<Rightarrow>
          scan_hpas cfg rest (if is then resourceProblems @ rs else resourceProblems))"

definition resourceMessage :: "Resource \<Rightarrow> string" where
  "resourceMessage r =
     Name r
     @ (if ProblemDetails r \<noteq> '''' then '':'' @ [CHR 0x09] @ ProblemDetails r else '''')
     @ (if Owner r \<noteq> '''' then '' (owned by '' @ Owner r @ '')'' else '''')"

fun render_problems ::
  "Report \<Rightarrow> Severity \<Rightarrow> (string \<rightharpoonup> Resource list) \<Rightarrow> string list \<Rightarrow> Printed list" where
  "render_problems report severity problems [] = []"
| "render_problems report severity problems (ident # rest) =
     (case problems ident of
        None \<Rightarrow> []
      | Some resources \<Rightarrow>
          (case GetProblemByID report ident of
             None \<Rightarrow> []
           | Some p \<Rightarrow>
               ProblemLine severity ident (ShortDescription p) (length resources)
                 (if 1 < length resources then ''s'' else '''')
               # map (\<lambda>r. ResourceLine (resourceMessage r)) resources))
     @ render_problems report severity problems rest"

fun render_severities ::
  "Report \<Rightarrow> severity_index \<Rightarrow> (Severity \<Rightarrow> string list) \<Rightarrow> Severity list \<Rightarrow> Printed list" where
  "render_severities report bySeverity ids [] = []"
| "render_severities report bySeverity ids (severity # rest) =
     (case bySeverity severity of
        None \<Rightarrow> []
      | Some problems \<Rightarrow> render_problems report severity problems (ids severity))
     @ render_severities report bySeverity ids rest"

fun render_help :: "Report \<Rightarrow> (string \<rightharpoonup> Resource list) \<Rightarrow> string list \<Rightarrow> Printed list" where
  "render_help report byProblem [] = []"
| "render_help report byProblem (ident # rest) =
     (case byProblem ident of
        None \<Rightarrow> []
      | Some resources \<Rightarrow>
          (case GetProblemByID report ident of
             None \<Rightarrow> []
           | Some p \<Rightarrow>
               [HelpLine ident
                  (if HelpURL p = ''''
                   then ''https://github.com/getoutreach/devenv/wiki/'' @ ident
                   else HelpURL p)]))
     @ render_help report byProblem rest"

definition Run :: "IterationOrder \<Rightarrow> Config \<Rightarrow> Cluster \<Rightarrow> Printed list \<times> Outcome" where
  "Run ord cfg k =
     (case GetKubeClient k of
        Some err \<Rightarrow>
          ([], ReturnError (''failed to get kubernetes client (is the devenv running?): '' @ err))
      | None \<Rightarrow>
     (case ListPods k of
        Inl err \<Rightarrow> ([], ReturnError (''failed to list pods: '' @ err))
      | Inr pods \<Rightarrow>
     (case ListHPAs k of
        Inl err \<Rightarrow> ([], ReturnError (''failed to list hpas: '' @ err))
      | Inr hpas \<Rightarrow>
     (case scan_pods cfg pods [] of
        Inl e \<Rightarrow> ([Checking], Panic e)
      | Inr podProblems \<Rightarrow>
     (case scan_hpas cfg hpas podProblems of
        Inl e \<Rightarrow> ([Checking], Panic e)
      | Inr resourceProblems \<Rightarrow>
          if length resourceProblems = 0
          then ([Checking, Done, EverythingLooksGood], ReturnNil)
          else
            (let report = ReportFromResources resourceProblems;
                 byProblem = ByProblem report
             in case BySeverity report of
                  Inl e \<Rightarrow> ([Checking, Done, ProblemsFound], Panic e)
                | Inr bySeverity \<Rightarrow>
                    ([Checking, Done, ProblemsFound]
                     @ render_severities report bySeverity (problemOrder ord) (severityOrder ord)
                     @ [MoreInformation]
                     @ render_help report byProblem (helpOrder ord),
                     Exit 1)))))))"

text \<open>
  Modelled from the spec: the command-line wrapper that turns the result of \<open>Run\<close> into
  the status of the process is a library outside the repository. Process exit codes: 0
  when no problem records are produced; 1 when at least one is produced. A call of
  \<open>os.Exit\<close> ends the process with its argument; a nil result leaves the wrapper nothing
  to report, which is status 0; the status after an error or a panic is the wrapper's
  and the runtime's to choose.
\<close>

definition exitStatus :: "Outcome \<Rightarrow> int option" where
  "exitStatus out =
     (case out of
        Exit n \<Rightarrow> Some n
      | ReturnNil \<Rightarrow> Some 0
      | ReturnError err \<Rightarrow> None
      | Panic e \<Rightarrow> None)"

section \<open>Example resources\<close>

text \<open>Concrete inputs on which the theorems below are evaluated.\<close>

definition example_status :: ContainerStatus where
  "example_status =
     \<lparr>StatusName = ''app'',
      State = \<lparr>Waiting = None, Terminated = None\<rparr>,
      LastTerminationState = \<lparr>Waiting = None, Terminated = None\<rparr>,
      Ready = True,
      RestartCount = 0\<rparr>"

definition example_pod :: "ContainerStatus list \<Rightarrow> Pod" where
  "example_pod statuses =
     \<lparr>PodName = ''api'', PodNamespace = ''default'', PodLabels = Map.empty,
      Containers = [], InitContainers = [], Phase = ''Running'',
      ContainerStatuses = statuses, InitContainerStatuses = []\<rparr>"

definition example_hpa :: "32 word \<Rightarrow> 32 word \<Rightarrow> HorizontalPodAutoscaler" where
  "example_hpa current maxr =
     \<lparr>HPAName = ''web'', HPANamespace = ''default'', HPALabels = Map.empty,
      MaxReplicas = maxr, CurrentReplicas = current\<rparr>"

definition example_oom :: ContainerStateTerminated where
  "example_oom =
     \<lparr>TerminatedReason = ''OOMKilled'', TerminatedMessage = '''',
      FinishedAt = Time ''2023-03-01 12:00:00 +0000 UTC''\<rparr>"

definition example_crash_loop :: ContainerStateWaiting where
  "example_crash_loop =
     \<lparr>WaitingReason = ''CrashLoopBackOff'', WaitingMessage = ''back-off restarting''\<rparr>"

definition example_record :: "string \<Rightarrow> string \<Rightarrow> bool \<Rightarrow> Resource" where
  "example_record name problemID warning =
     \<lparr>Name = name, Owner = '''', Type = ''pod'', ProblemID = problemID,
      ProblemDetails = '''', Warning = warning\<rparr>"

definition example_order :: IterationOrder where
  "example_order =
     \<lparr>severityOrder = [SeverityError, SeverityWarning],
      problemOrder = (\<lambda>s. map ID enabledProblems),
      helpOrder = map ID enabledProblems\<rparr>"

section \<open>Facts about the detectors\<close>

lemmas detector_defs =
  MaxedOutHPAs_Detector_def HighRestarts_Detector_def PodCrashLoopBackOff_Detector_def
  PodNotReady_Detector_def PodImagePullBackOff_Detector_def PodOOMKilled_Detector_def
  PodPending_Detector_def

lemma problem_ids:
  "ID ProblemPodCrashLoopBackOff = ''PodCrashLoopBackOff''"
  "ID ProblemPodNotReady = ''PodNotReady''"
  "ID ProblemPodImagePullBackOff = ''PodImagePullBackOff''"
  "ID ProblemPodOOMKilled = ''PodOOMKilled''"
  "ID ProblemHighRestarts = ''HighRestarts''"
  "ID ProblemMaxedOutHPAs = ''MaxedOutHPAs''"
  "ID ProblemPodPending = ''PodPending''"
  by (simp_all add: ProblemPodCrashLoopBackOff_def ProblemPodNotReady_def
        ProblemPodImagePullBackOff_def ProblemPodOOMKilled_def ProblemHighRestarts_def
        ProblemMaxedOutHPAs_def ProblemPodPending_def)

lemma problem_detectors:
  "Detector ProblemPodCrashLoopBackOff = PodCrashLoopBackOff_Detector"
  "Detector ProblemPodNotReady = PodNotReady_Detector"
  "Detector ProblemPodImagePullBackOff = PodImagePullBackOff_Detector"
  "Detector ProblemPodOOMKilled = PodOOMKilled_Detector"
  "Detector ProblemHighRestarts = HighRestarts_Detector"
  "Detector ProblemMaxedOutHPAs = MaxedOutHPAs_Detector"
  "Detector ProblemPodPending = PodPending_Detector"
  by (simp_all add: ProblemPodCrashLoopBackOff_def ProblemPodNotReady_def
        ProblemPodImagePullBackOff_def ProblemPodOOMKilled_def ProblemHighRestarts_def
        ProblemMaxedOutHPAs_def ProblemPodPending_def)

lemma enabled_ids:
  "map ID enabledProblems =
     [''PodCrashLoopBackOff'', ''PodNotReady'', ''PodImagePullBackOff'', ''PodOOMKilled'',
      ''HighRestarts'', ''MaxedOutHPAs'']"
  by (simp add: enabledProblems_def enabledPodProblems_def enabledHPAProblems_def problem_ids)

lemma enabled_ids_distinct: "distinct (map ID enabledProblems)"
  by (simp add: enabled_ids)

text \<open>The conversion to \<open>int32\<close> is the identity on thresholds in the range of \<open>int32\<close>.\<close>

lemma int32_conv:
  fixes t :: "64 word"
  shows "sint (ucast t :: 32 word) = signed_take_bit 31 (sint t)"
proof -
  have a: "sint (ucast t :: 32 word) = signed_take_bit 31 (uint t)"
    using signed_ucast_eq [where 'a = int and 'c = 32 and w = t] by simp
  have "take_bit 32 (sint t) = take_bit 32 (uint t)"
    by (simp add: sint_uint take_bit_signed_take_bit)
  then have "signed_take_bit 31 (uint t) = signed_take_bit 31 (sint t)"
    by (simp add: signed_take_bit_eq_iff_take_bit_eq)
  with a show ?thesis by simp
qed

lemma int32_of_int_in_range:
  fixes t :: "64 word"
  assumes "- (2 ^ 31) \<le> sint t" "sint t < 2 ^ 31"
  shows "sint (ucast t :: 32 word) = sint t"
  using assms by (simp add: int32_conv signed_take_bit_int_eq_self)

lemma HighRestarts_loop_find:
  "HighRestarts_loop name t css =
     (case find (\<lambda>cs. sint t \<le> sint (RestartCount cs)) css of
        None \<Rightarrow> None
      | Some cs \<Rightarrow> Some (''Container '' @ name @ '' has restarted ''
                          @ fmt_d (sint (RestartCount cs)) @ '' time(s)'', True, True))"
  by (induction css) simp_all

lemma HighRestarts_Detector_find:
  "HighRestarts_Detector (PodObject pod) cfg =
     (case find (\<lambda>cs. sint (ucast (RestartThreshold cfg) :: 32 word) \<le> sint (RestartCount cs))
             (ContainerStatuses pod) of
        None \<Rightarrow> Inr ('''', False, False)
      | Some cs \<Rightarrow> Inr (''Container '' @ PodName pod @ '' has restarted ''
                          @ fmt_d (sint (RestartCount cs)) @ '' time(s)'', True, True))"
  by (simp add: HighRestarts_Detector_def HighRestarts_loop_find split: option.splits)

lemma OOMKilled_loop_find:
  "OOMKilled_loop css =
     (case find (\<lambda>cs. currentOOMKilled cs \<or> lastOOMKilled cs) css of
        None \<Rightarrow> None
      | Some cs \<Rightarrow>
          if currentOOMKilled cs
          then Some (''Container '' @ StatusName cs
                       @ '' was killed because it ran out of memory'', False, True)
          else Some (''Container '' @ StatusName cs
                       @ '' was recently killed because it ran out of memory: ''
                       @ TimeString (FinishedAt (the (Terminated (LastTerminationState cs)))),
                     True, True))"
  by (induction css) (auto simp: lastOOMKilled_def split: option.splits)

lemma detect_loop_all_Inr:
  assumes "\<forall>p \<in> set ps. \<exists>r. Detector p obj cfg = Inr r"
  shows "detect_loop ps obj cfg d acc =
           Inr (acc @ concat (map (\<lambda>p. case Detector p obj cfg of
                                          Inr (det, w, occ) \<Rightarrow>
                                            if occ then [d\<lparr>ProblemID := ID p, ProblemDetails := det,
                                                           Warning := w\<rparr>]
                                            else []
                                        | Inl e \<Rightarrow> []) ps))"
  using assms
proof (induction ps arbitrary: acc)
  case Nil
  then show ?case by simp
next
  case (Cons p ps)
  then obtain det w occ where r: "Detector p obj cfg = Inr (det, w, occ)"
    by (metis list.set_intros(1) prod_cases3)
  from Cons.prems have "\<forall>p \<in> set ps. \<exists>r. Detector p obj cfg = Inr r" by simp
  then show ?case
    using r by (simp add: Cons.IH)
qed

lemma pod_detectors_total:
  "\<exists>r. PodNotReady_Detector obj cfg = Inr r"
  "\<exists>r. PodImagePullBackOff_Detector obj cfg = Inr r"
  "\<exists>r. PodOOMKilled_Detector obj cfg = Inr r"
  "\<exists>r. HighRestarts_Detector obj cfg = Inr r"
  "\<exists>r. MaxedOutHPAs_Detector obj cfg = Inr r"
  by (auto simp: detector_defs split: Object.splits option.splits)

section \<open>Facts about the report\<close>

lemma ByProblem_inner_eq:
  "ByProblem_inner p rs m k =
     (if k = ID p \<and> filter (\<lambda>r. ProblemID r = k) rs \<noteq> []
      then Some ((case m k of None \<Rightarrow> [] | Some l \<Rightarrow> l) @ filter (\<lambda>r. ProblemID r = k) rs)
      else m k)"
proof (induction rs arbitrary: m k)
  case Nil
  then show ?case by simp
next
  case (Cons r rs)
  show ?case
  proof (cases "ProblemID r = ID p")
    case True
    then show ?thesis
      by (cases "k = ID p") (simp_all add: Cons.IH bucket_append_def)
  next
    case False
    then show ?thesis
      by (cases "k = ID p") (simp_all add: Cons.IH)
  qed
qed

lemma ByProblem_outer_eq:
  "distinct (map ID ps) \<Longrightarrow>
   ByProblem_outer ps rs m k =
     (if k \<in> ID ` set ps \<and> filter (\<lambda>r. ProblemID r = k) rs \<noteq> []
      then Some ((case m k of None \<Rightarrow> [] | Some l \<Rightarrow> l) @ filter (\<lambda>r. ProblemID r = k) rs)
      else m k)"
proof (induction ps arbitrary: m)
  case Nil
  then show ?case by simp
next
  case (Cons p ps)
  then have d: "distinct (map ID ps)" and n: "ID p \<notin> ID ` set ps" by auto
  show ?case
    using n by (auto simp: Cons.IH [OF d] ByProblem_inner_eq)
qed

lemma ByProblem_eq:
  "distinct (map ID (Problems r)) \<Longrightarrow>
   ByProblem r k =
     (if k \<in> ID ` set (Problems r) \<and> filter (\<lambda>x. ProblemID x = k) (Resources r) \<noteq> []
      then Some (filter (\<lambda>x. ProblemID x = k) (Resources r))
      else None)"
  by (simp add: ByProblem_def ByProblem_outer_eq)

lemma severity_index_upd:
  "[SeverityError \<mapsto> e, SeverityWarning \<mapsto> w](SeverityError \<mapsto> e') =
     [SeverityError \<mapsto> e', SeverityWarning \<mapsto> w]"
  "[SeverityError \<mapsto> e, SeverityWarning \<mapsto> w](SeverityWarning \<mapsto> w') =
     [SeverityError \<mapsto> e, SeverityWarning \<mapsto> w']"
  by (rule ext, simp)+

lemma severity_index_lookup:
  "[SeverityError \<mapsto> e, SeverityWarning \<mapsto> w] SeverityError = Some e"
  "[SeverityError \<mapsto> e, SeverityWarning \<mapsto> w] SeverityWarning = Some w"
  by simp_all

lemma BySeverity_inner_eq:
  "BySeverity_inner p rs [SeverityError \<mapsto> e, SeverityWarning \<mapsto> w] =
     Inr [SeverityError \<mapsto> ByProblem_inner p (filter (\<lambda>r. \<not> Warning r) rs) e,
          SeverityWarning \<mapsto> ByProblem_inner p (filter Warning rs) w]"
proof (induction rs arbitrary: e w)
  case Nil
  then show ?case by simp
next
  case (Cons r rs)
  show ?case
    by (simp add: severity_append_def severity_index_upd severity_index_lookup Cons.IH
             del: fun_upd_apply)
qed

lemma BySeverity_outer_eq:
  "BySeverity_outer ps rs [SeverityError \<mapsto> e, SeverityWarning \<mapsto> w] =
     Inr [SeverityError \<mapsto> ByProblem_outer ps (filter (\<lambda>r. \<not> Warning r) rs) e,
          SeverityWarning \<mapsto> ByProblem_outer ps (filter Warning rs) w]"
  by (induction ps arbitrary: e w) (simp_all add: BySeverity_inner_eq del: fun_upd_apply)

lemma BySeverity_eq:
  "BySeverity r =
     Inr [SeverityError \<mapsto> ByProblem (r\<lparr>Resources := filter (\<lambda>x. \<not> Warning x) (Resources r)\<rparr>),
          SeverityWarning \<mapsto> ByProblem (r\<lparr>Resources := filter Warning (Resources r)\<rparr>)]"
  by (simp add: BySeverity_def ByProblem_def BySeverity_outer_eq del: fun_upd_apply)

lemma sum_mset_filter:
  "finite K \<Longrightarrow>
   (\<Sum>k\<in>K. mset (filter (\<lambda>r. f r = k \<and> P r) rs)) = mset (filter (\<lambda>r. f r \<in> K \<and> P r) rs)"
proof (induction rs)
  case Nil
  then show ?case by simp
next
  case (Cons r rs)
  have "(\<Sum>k\<in>K. mset (filter (\<lambda>r. f r = k \<and> P r) (r # rs))) =
        (\<Sum>k\<in>K. (if k = f r then (if P r then {#r#} else {#}) else {#})
                  + mset (filter (\<lambda>r. f r = k \<and> P r) rs))"
    by (intro sum.cong) auto
  also have "\<dots> = (\<Sum>k\<in>K. (if k = f r then (if P r then {#r#} else {#}) else {#}))
                  + (\<Sum>k\<in>K. mset (filter (\<lambda>r. f r = k \<and> P r) rs))"
    by (simp add: sum.distrib)
  also have "\<dots> = (if f r \<in> K \<and> P r then {#r#} else {#})
                  + mset (filter (\<lambda>r. f r \<in> K \<and> P r) rs)"
    using Cons by simp
  finally show ?case by simp
qed

lemma bucket_union:
  assumes K: "finite K"
    and m: "\<And>k. m k = (if k \<in> K \<and> filter (\<lambda>r. f r = k \<and> P r) rs \<noteq> []
                        then Some (filter (\<lambda>r. f r = k \<and> P r) rs) else None)"
  shows "(\<Sum>k\<in>dom m. mset (the (m k))) = mset (filter (\<lambda>r. f r \<in> K \<and> P r) rs)"
proof -
  have sub: "dom m \<subseteq> K" using m by (auto simp: dom_def split: if_splits)
  have "(\<Sum>k\<in>dom m. mset (the (m k))) = (\<Sum>k\<in>dom m. mset (filter (\<lambda>r. f r = k \<and> P r) rs))"
    by (intro sum.cong) (auto simp: m split: if_splits)
  also have "\<dots> = (\<Sum>k\<in>K. mset (filter (\<lambda>r. f r = k \<and> P r) rs))"
  proof (rule sum.mono_neutral_left [OF K sub])
    show "\<forall>i\<in>K - dom m. mset (filter (\<lambda>r. f r = i \<and> P r) rs) = {#}"
      using m by (auto simp: dom_def filter_empty_conv split: if_splits)
  qed
  also have "\<dots> = mset (filter (\<lambda>r. f r \<in> K \<and> P r) rs)"
    by (rule sum_mset_filter [OF K])
  finally show ?thesis .
qed

lemma find_ID_Some:
  "find (\<lambda>e. ID e = k) ps = Some e \<Longrightarrow> ID e = k \<and> e \<in> set ps"
  by (induction ps) (auto split: if_splits)

lemma find_ID_None:
  "find (\<lambda>e. ID e = k) ps = None \<longleftrightarrow> k \<notin> ID ` set ps"
  by (induction ps) auto

lemma remdups_snoc:
  "remdups (xs @ [k]) = filter (\<lambda>x. x \<noteq> k) (remdups xs) @ [k]"
  by (induction xs) auto

lemma first_appearance_filter:
  "filter P (rev (remdups (rev xs))) = rev (remdups (rev (filter P xs)))"
proof -
  have "rev (remdups (rev (filter P xs))) = rev (remdups (filter P (rev xs)))"
    by (simp only: rev_filter)
  also have "\<dots> = rev (filter P (remdups (rev xs)))"
    by (simp only: remdups_filter)
  also have "\<dots> = filter P (rev (remdups (rev xs)))"
    by (simp only: rev_filter)
  finally show ?thesis by simp
qed

lemma first_appearance_Cons:
  "rev (remdups (rev (k # ks))) = k # rev (remdups (rev (filter (\<lambda>x. x \<noteq> k) ks)))"
proof -
  have "rev (remdups (rev (k # ks))) = k # filter (\<lambda>x. x \<noteq> k) (rev (remdups (rev ks)))"
    by (simp add: remdups_snoc rev_filter)
  then show ?thesis by (simp only: first_appearance_filter)
qed

lemma ReportFromResources_loop_ids:
  "HM = ID ` set ps \<Longrightarrow>
   map ID (ReportFromResources_loop rs HM ps) =
     map ID ps @ rev (remdups (rev (filter (\<lambda>k. k \<in> ID ` set enabledProblems \<and> k \<notin> HM)
                                       (map ProblemID rs))))"
proof (induction rs arbitrary: HM ps)
  case Nil
  then show ?case by simp
next
  case (Cons r rs)
  show ?case
  proof (cases "ProblemID r \<in> HM")
    case True
    then show ?thesis using Cons.IH [OF Cons.prems] by simp
  next
    case False
    show ?thesis
    proof (cases "find (\<lambda>enabled. ID enabled = ProblemID r) enabledProblems")
      case None
      then have "ProblemID r \<notin> ID ` set enabledProblems" by (simp add: find_ID_None)
      then show ?thesis using False None Cons.IH [OF Cons.prems] by simp
    next
      case (Some e)
      then have e: "ID e = ProblemID r" "e \<in> set enabledProblems"
        using find_ID_Some by blast+
      then have res: "ProblemID r \<in> ID ` set enabledProblems" by force
      have hm: "insert (ID e) HM = ID ` set (ps @ [e])" using Cons.prems by auto
      have flt: "filter (\<lambda>x. x \<noteq> ProblemID r)
                   (filter (\<lambda>k. k \<in> ID ` set enabledProblems \<and> k \<notin> HM) (map ProblemID rs)) =
                 filter (\<lambda>k. k \<in> ID ` set enabledProblems \<and> k \<notin> insert (ID e) HM)
                   (map ProblemID rs)"
        using e(1) by (auto intro: filter_cong)
      have "map ID (ReportFromResources_loop (r # rs) HM ps) =
              map ID (ReportFromResources_loop rs (insert (ID e) HM) (ps @ [e]))"
        using False Some by simp
      also have "\<dots> = map ID ps @ ProblemID r #
                   rev (remdups (rev (filter (\<lambda>x. x \<noteq> ProblemID r)
                     (filter (\<lambda>k. k \<in> ID ` set enabledProblems \<and> k \<notin> HM) (map ProblemID rs)))))"
        unfolding Cons.IH [OF hm] flt using e(1) by simp
      also have "\<dots> = map ID ps @ rev (remdups (rev (ProblemID r #
                     filter (\<lambda>k. k \<in> ID ` set enabledProblems \<and> k \<notin> HM) (map ProblemID rs))))"
        by (simp only: first_appearance_Cons)
      also have "\<dots> = map ID ps @ rev (remdups (rev
                     (filter (\<lambda>k. k \<in> ID ` set enabledProblems \<and> k \<notin> HM)
                        (map ProblemID (r # rs)))))"
        using False res by simp
      finally show ?thesis .
    qed
  qed
qed

lemma ReportFromResources_loop_entries:
  "\<forall>p \<in> set ps. find (\<lambda>e. ID e = ID p) enabledProblems = Some p \<Longrightarrow>
   \<forall>p \<in> set (ReportFromResources_loop rs HM ps).
      find (\<lambda>e. ID e = ID p) enabledProblems = Some p"
proof (induction rs arbitrary: HM ps)
  case Nil
  then show ?case by simp
next
  case (Cons r rs)
  show ?case
  proof (cases "find (\<lambda>enabled. ID enabled = ProblemID r) enabledProblems")
    case None
    then show ?thesis using Cons by simp
  next
    case (Some e)
    then have "ID e = ProblemID r" using find_ID_Some by blast
    with Some have "\<forall>p \<in> set (ps @ [e]). find (\<lambda>e. ID e = ID p) enabledProblems = Some p"
      using Cons.prems by simp
    from Cons.IH [OF this] show ?thesis
      using Some Cons.IH [OF Cons.prems] by simp
  qed
qed

lemma ReportFromResources_ids:
  "map ID (Problems (ReportFromResources rs)) =
     rev (remdups (rev (filter (\<lambda>k. k \<in> ID ` set enabledProblems) (map ProblemID rs))))"
  by (simp add: ReportFromResources_def ReportFromResources_loop_ids)

lemma ReportFromResources_distinct:
  "distinct (map ID (Problems (ReportFromResources rs)))"
  by (simp add: ReportFromResources_ids)

lemma ReportFromResources_id_set:
  "ID ` set (Problems (ReportFromResources rs)) = ProblemID ` set rs \<inter> ID ` set enabledProblems"
proof -
  have "set (map ID (Problems (ReportFromResources rs))) =
          ProblemID ` set rs \<inter> ID ` set enabledProblems"
    unfolding ReportFromResources_ids by auto
  then show ?thesis by simp
qed

lemma ByProblem_union:
  assumes "distinct (map ID (Problems r))"
  shows "(\<Sum>k\<in>dom (ByProblem r). mset (the (ByProblem r k))) =
           mset (filter (\<lambda>x. ProblemID x \<in> ID ` set (Problems r)) (Resources r))"
proof -
  have "(\<Sum>k\<in>dom (ByProblem r). mset (the (ByProblem r k))) =
          mset (filter (\<lambda>x. ProblemID x \<in> ID ` set (Problems r) \<and> True) (Resources r))"
    by (rule bucket_union) (simp_all add: ByProblem_eq [OF assms])
  then show ?thesis by simp
qed

lemma mset_filter_Warning:
  "mset (filter (\<lambda>x. \<not> Warning x \<and> P x) rs) + mset (filter (\<lambda>x. Warning x \<and> P x) rs) =
     mset (filter P rs)"
  by (induction rs) (simp_all del: mset_filter)

lemma BySeverity_union:
  assumes "distinct (map ID (Problems r))"
  shows "\<exists>M. BySeverity r = Inr M
           \<and> (\<Sum>s\<in>dom M. \<Sum>k\<in>dom (the (M s)). mset (the (the (M s) k))) =
               mset (filter (\<lambda>x. ProblemID x \<in> ID ` set (Problems r)) (Resources r))"
proof -
  let ?E = "r\<lparr>Resources := filter (\<lambda>x. \<not> Warning x) (Resources r)\<rparr>"
  let ?W = "r\<lparr>Resources := filter Warning (Resources r)\<rparr>"
  let ?M = "[SeverityError \<mapsto> ByProblem ?E, SeverityWarning \<mapsto> ByProblem ?W]"
  have dE: "distinct (map ID (Problems ?E))" and dW: "distinct (map ID (Problems ?W))"
    using assms by simp_all
  have "(\<Sum>s\<in>dom ?M. \<Sum>k\<in>dom (the (?M s)). mset (the (the (?M s) k))) =
          (\<Sum>k\<in>dom (ByProblem ?E). mset (the (ByProblem ?E k)))
          + (\<Sum>k\<in>dom (ByProblem ?W). mset (the (ByProblem ?W k)))"
    by simp
  also have "\<dots> = mset (filter (\<lambda>x. ProblemID x \<in> ID ` set (Problems r)) (Resources r))"
    unfolding ByProblem_union [OF dE] ByProblem_union [OF dW]
    by (simp add: mset_filter_Warning del: mset_filter)
  finally show ?thesis
    using BySeverity_eq [of r] by blast
qed

section \<open>The claims about the report\<close>

text \<open>
  C1: for every list of ResourceRecords, the Report built by ReportFromResources stores
  the input list unchanged as its \<open>Resources\<close> field; the IDs of its \<open>Problems\<close> field
  are the problemIDs of the input that resolve to a catalog entry, each once, in the
  order of their first appearance in the input (so no Problem has an ID absent from the
  input, and unresolvable problemIDs are left out; the function has no failing branch);
  and each Problem is the catalog entry of its ID.
\<close>

theorem ReportFromResources_problems:
  "Resources (ReportFromResources rs) = rs
   \<and> map ID (Problems (ReportFromResources rs)) =
       rev (remdups (rev (filter (\<lambda>k. k \<in> ID ` set enabledProblems) (map ProblemID rs))))
   \<and> distinct (map ID (Problems (ReportFromResources rs)))
   \<and> ID ` set (Problems (ReportFromResources rs)) =
       ProblemID ` set rs \<inter> ID ` set enabledProblems
   \<and> (\<forall>p \<in> set (Problems (ReportFromResources rs)).
         find (\<lambda>e. ID e = ID p) enabledProblems = Some p)"
proof -
  have "\<forall>p \<in> set (ReportFromResources_loop rs {} []).
          find (\<lambda>e. ID e = ID p) enabledProblems = Some p"
    by (rule ReportFromResources_loop_entries) simp
  then show ?thesis
    using ReportFromResources_ids [of rs] ReportFromResources_distinct [of rs]
      ReportFromResources_id_set [of rs]
    by (simp add: ReportFromResources_def)
qed

theorem ReportFromResources_problems_witness:
  "ProblemHighRestarts \<in>
     set (Problems (ReportFromResources
       [example_record ''default/api'' ''HighRestarts'' True,
        example_record ''default/api'' ''NoSuchProblem'' False,
        example_record ''default/web'' ''MaxedOutHPAs'' True,
        example_record ''default/db'' ''HighRestarts'' True]))
   \<and> map ID (Problems (ReportFromResources
       [example_record ''default/api'' ''HighRestarts'' True,
        example_record ''default/api'' ''NoSuchProblem'' False,
        example_record ''default/web'' ''MaxedOutHPAs'' True,
        example_record ''default/db'' ''HighRestarts'' True])) =
       [''HighRestarts'', ''MaxedOutHPAs'']
   \<and> find (\<lambda>e. ID e = ID ProblemHighRestarts) enabledProblems = Some ProblemHighRestarts"
proof -
  let ?rs = "[example_record ''default/api'' ''HighRestarts'' True,
        example_record ''default/api'' ''NoSuchProblem'' False,
        example_record ''default/web'' ''MaxedOutHPAs'' True,
        example_record ''default/db'' ''HighRestarts'' True]"
  have p: "Problems (ReportFromResources ?rs) = [ProblemHighRestarts, ProblemMaxedOutHPAs]"
    by (simp add: ReportFromResources_def example_record_def enabledProblems_def
          enabledPodProblems_def enabledHPAProblems_def problem_ids)
  then have m: "ProblemHighRestarts \<in> set (Problems (ReportFromResources ?rs))"
    by simp
  have i: "map ID (Problems (ReportFromResources ?rs)) = [''HighRestarts'', ''MaxedOutHPAs'']"
    using p by (simp add: problem_ids)
  show ?thesis
    using m i ReportFromResources_problems [of ?rs] by blast
qed

section \<open>The claims about the indices\<close>

text \<open>
  C2 (as stated) fails: a record whose problemID matches no catalog entry is stored in the
  report, and the by-problem index has no bucket at all, so the buckets do not hold the
  input.
\<close>

theorem index_drops_unresolved:
  "Resources (ReportFromResources [example_record ''default/api'' ''NoSuchProblem'' False]) =
     [example_record ''default/api'' ''NoSuchProblem'' False]
   \<and> dom (ByProblem (ReportFromResources
            [example_record ''default/api'' ''NoSuchProblem'' False])) = {}"
  by (simp add: ReportFromResources_def ByProblem_def example_record_def enabledProblems_def
        enabledPodProblems_def enabledHPAProblems_def problem_ids)

text \<open>
  C2 (amended): for every Report built by ReportFromResources from a list of
  ResourceRecords whose problemIDs all resolve to catalog entries, ByProblem() and
  BySeverity() partition the record list: the union of all buckets under either index has
  the same multiset of records as the input, with no record duplicated or dropped, and
  each ByProblem bucket lists its matching records in input order.
\<close>

theorem indices_partition:
  assumes "\<forall>r \<in> set rs. ProblemID r \<in> ID ` set enabledProblems"
  shows "(\<Sum>k\<in>dom (ByProblem (ReportFromResources rs)).
            mset (the (ByProblem (ReportFromResources rs) k))) = mset rs
         \<and> (\<exists>M. BySeverity (ReportFromResources rs) = Inr M
              \<and> (\<Sum>s\<in>dom M. \<Sum>k\<in>dom (the (M s)). mset (the (the (M s) k))) = mset rs)
         \<and> (\<forall>k l. ByProblem (ReportFromResources rs) k = Some l \<longrightarrow>
               l = filter (\<lambda>r. ProblemID r = k) rs)"
proof -
  let ?rep = "ReportFromResources rs"
  have d: "distinct (map ID (Problems ?rep))"
    by (rule ReportFromResources_distinct)
  have res: "Resources ?rep = rs"
    by (simp add: ReportFromResources_def)
  have all: "filter (\<lambda>x. ProblemID x \<in> ID ` set (Problems ?rep)) rs = rs"
    using assms by (simp add: ReportFromResources_id_set)
  have 1: "(\<Sum>k\<in>dom (ByProblem ?rep). mset (the (ByProblem ?rep k))) = mset rs"
    using ByProblem_union [OF d] by (simp only: res all)
  have 2: "\<exists>M. BySeverity ?rep = Inr M
              \<and> (\<Sum>s\<in>dom M. \<Sum>k\<in>dom (the (M s)). mset (the (the (M s) k))) = mset rs"
    using BySeverity_union [OF d] by (simp only: res all)
  have 3: "\<forall>k l. ByProblem ?rep k = Some l \<longrightarrow> l = filter (\<lambda>r. ProblemID r = k) rs"
    by (auto simp: ByProblem_eq [OF d] res split: if_splits)
  from 1 2 3 show ?thesis by blast
qed

theorem indices_partition_witness:
  "ProblemID (example_record ''default/api'' ''HighRestarts'' True) \<in> ID ` set enabledProblems
   \<and> ProblemID (example_record ''default/web'' ''MaxedOutHPAs'' True) \<in> ID ` set enabledProblems
   \<and> (\<Sum>k\<in>dom (ByProblem (ReportFromResources
              [example_record ''default/api'' ''HighRestarts'' True,
               example_record ''default/web'' ''MaxedOutHPAs'' True])).
          mset (the (ByProblem (ReportFromResources
              [example_record ''default/api'' ''HighRestarts'' True,
               example_record ''default/web'' ''MaxedOutHPAs'' True]) k))) =
       mset [example_record ''default/api'' ''HighRestarts'' True,
             example_record ''default/web'' ''MaxedOutHPAs'' True]"
proof -
  have h: "ProblemID (example_record ''default/api'' ''HighRestarts'' True)
             \<in> ID ` set enabledProblems"
    "ProblemID (example_record ''default/web'' ''MaxedOutHPAs'' True)
             \<in> ID ` set enabledProblems"
    by (simp_all add: example_record_def enabledProblems_def enabledPodProblems_def
          enabledHPAProblems_def problem_ids)
  then have "\<forall>r \<in> set [example_record ''default/api'' ''HighRestarts'' True,
                        example_record ''default/web'' ''MaxedOutHPAs'' True].
               ProblemID r \<in> ID ` set enabledProblems"
    by simp
  from indices_partition [OF this] h show ?thesis by blast
qed

text \<open>
  C9: both methods are functions of the report alone, and the report after a call is the
  report before it: a second call on the report left by the first gives the same index.
  BySeverity never panics and its result holds both the Error bucket and the Warning
  bucket, for every report.
\<close>

theorem indices_idempotent:
  "snd (ByProblem_call r) = r
   \<and> fst (ByProblem_call (snd (ByProblem_call r))) = fst (ByProblem_call r)
   \<and> snd (BySeverity_call r) = r
   \<and> fst (BySeverity_call (snd (BySeverity_call r))) = fst (BySeverity_call r)
   \<and> Problems (snd (BySeverity_call (snd (ByProblem_call r)))) = Problems r
   \<and> Resources (snd (BySeverity_call (snd (ByProblem_call r)))) = Resources r
   \<and> (\<exists>M e w. BySeverity r = Inr M \<and> M SeverityError = Some e \<and> M SeverityWarning = Some w)"
  by (simp add: ByProblem_call_def BySeverity_call_def BySeverity_eq)

text \<open>
  C10: for a Report built by ReportFromResources from records that include a record whose
  problemID matches no catalog entry, that record remains in \<open>Resources\<close> and appears in
  no bucket of ByProblem() and in no bucket of BySeverity().
\<close>

theorem unresolved_record_in_no_bucket:
  assumes "r \<in> set rs" and "ProblemID r \<notin> ID ` set enabledProblems"
  shows "r \<in> set (Resources (ReportFromResources rs))
         \<and> r \<notin> \<Union> (set ` ran (ByProblem (ReportFromResources rs)))
         \<and> (\<exists>M. BySeverity (ReportFromResources rs) = Inr M
              \<and> r \<notin> \<Union> (set ` \<Union> (ran ` ran M)))"
proof -
  let ?rep = "ReportFromResources rs"
  let ?E = "?rep\<lparr>Resources := filter (\<lambda>x. \<not> Warning x) (Resources ?rep)\<rparr>"
  let ?W = "?rep\<lparr>Resources := filter Warning (Resources ?rep)\<rparr>"
  let ?M = "[SeverityError \<mapsto> ByProblem ?E, SeverityWarning \<mapsto> ByProblem ?W]"
  have d: "distinct (map ID (Problems ?rep))"
    by (rule ReportFromResources_distinct)
  have ids: "ID ` set (Problems ?rep) \<subseteq> ID ` set enabledProblems"
    by (simp add: ReportFromResources_id_set)
  have bucket: "r \<notin> set l"
    if "ByProblem rep' k = Some l" "Problems rep' = Problems ?rep" for rep' k l
  proof -
    have d': "distinct (map ID (Problems rep'))" using d that(2) by simp
    from that(1) have "k \<in> ID ` set (Problems ?rep)"
      and "l = filter (\<lambda>x. ProblemID x = k) (Resources rep')"
      using that(2) by (auto simp: ByProblem_eq [OF d'] split: if_splits)
    with ids assms(2) show ?thesis by auto
  qed
  have 1: "r \<in> set (Resources ?rep)"
    using assms(1) by (simp add: ReportFromResources_def)
  have 2: "r \<notin> \<Union> (set ` ran (ByProblem ?rep))"
    using bucket [of ?rep] by (auto simp: ran_def)
  have "r \<notin> \<Union> (set ` \<Union> (ran ` ran ?M))"
  proof
    assume "r \<in> \<Union> (set ` \<Union> (ran ` ran ?M))"
    then obtain m l where m: "m \<in> ran ?M" and l: "l \<in> ran m" and r: "r \<in> set l"
      by auto
    from m have "m = ByProblem ?E \<or> m = ByProblem ?W"
      by (auto simp: ran_def split: if_splits)
    then show False
      using l r bucket [of ?E] bucket [of ?W] by (auto simp: ran_def)
  qed
  then have 3: "\<exists>M. BySeverity ?rep = Inr M \<and> r \<notin> \<Union> (set ` \<Union> (ran ` ran M))"
    using BySeverity_eq [of ?rep] by blast
  from 1 2 3 show ?thesis by blast
qed

theorem unresolved_record_in_no_bucket_witness:
  "example_record ''default/api'' ''NoSuchProblem'' False
     \<in> set [example_record ''default/web'' ''MaxedOutHPAs'' True,
            example_record ''default/api'' ''NoSuchProblem'' False]
   \<and> ProblemID (example_record ''default/api'' ''NoSuchProblem'' False)
        \<notin> ID ` set enabledProblems
   \<and> example_record ''default/api'' ''NoSuchProblem'' False
        \<in> set (Resources (ReportFromResources
             [example_record ''default/web'' ''MaxedOutHPAs'' True,
              example_record ''default/api'' ''NoSuchProblem'' False]))
   \<and> example_record ''default/api'' ''NoSuchProblem'' False
        \<notin> \<Union> (set ` ran (ByProblem (ReportFromResources
             [example_record ''default/web'' ''MaxedOutHPAs'' True,
              example_record ''default/api'' ''NoSuchProblem'' False])))"
proof -
  have h1: "example_record ''default/api'' ''NoSuchProblem'' False
     \<in> set [example_record ''default/web'' ''MaxedOutHPAs'' True,
            example_record ''default/api'' ''NoSuchProblem'' False]"
    by simp
  have h2: "ProblemID (example_record ''default/api'' ''NoSuchProblem'' False)
        \<notin> ID ` set enabledProblems"
    by (simp add: example_record_def enabledProblems_def enabledPodProblems_def
          enabledHPAProblems_def problem_ids)
  from unresolved_record_in_no_bucket [OF h1 h2] h1 h2 show ?thesis by blast
qed

section \<open>The claims about the detectors\<close>

text \<open>
  C3 (as stated) fails: an autoscaler with 10 of 10 replicas is reported with the warning
  flag set, not as an error.
\<close>

theorem MaxedOutHPAs_is_warning:
  "Detector ProblemMaxedOutHPAs (HPAObject (example_hpa 10 10)) \<lparr>RestartThreshold = 3\<rparr> =
     Inr (''web has 10/10 replicas'', True, True)"
  by (simp add: problem_detectors MaxedOutHPAs_Detector_def example_hpa_def fmt_d_def digits.simps)

text \<open>
  C3 (amended): for every horizontal-autoscaler whose \<open>status.currentReplicas\<close> equals
  \<open>spec.maxReplicas\<close>, the MaxedOutHPAs detector returns isOccurring = true with the
  warning flag set (isWarning = true) and the detail
  "<name> has <current>/<max> replicas", and the scan of the autoscaler yields one record
  with that detail and \<open>Warning = True\<close>; for an autoscaler whose currentReplicas differs
  from maxReplicas it returns isOccurring = false and the scan yields no record.
\<close>

theorem MaxedOutHPAs_detector:
  "Detector ProblemMaxedOutHPAs (HPAObject hpa) cfg =
     (if CurrentReplicas hpa = MaxReplicas hpa
      then Inr (HPAName hpa @ '' has '' @ fmt_d (sint (CurrentReplicas hpa)) @ ''/''
                  @ fmt_d (sint (MaxReplicas hpa)) @ '' replicas'', True, True)
      else Inr ('''', False, False))
   \<and> getHPAsWithProblems cfg hpa =
     (if CurrentReplicas hpa = MaxReplicas hpa
      then Inr ([\<lparr>Name = HPANamespace hpa @ ''/'' @ HPAName hpa,
                   Owner = label (HPALabels hpa) ''reporting_team'',
                   Type = ''HPA'',
                   ProblemID = ''MaxedOutHPAs'',
                   ProblemDetails =
                     HPAName hpa @ '' has '' @ fmt_d (sint (CurrentReplicas hpa)) @ ''/''
                       @ fmt_d (sint (MaxReplicas hpa)) @ '' replicas'',
                   Warning = True\<rparr>], True)
      else Inr ([], False))"
  by (auto simp: getHPAsWithProblems_def enabledHPAProblems_def problem_detectors problem_ids
        MaxedOutHPAs_Detector_def)

theorem MaxedOutHPAs_detector_witness:
  "Detector ProblemMaxedOutHPAs (HPAObject (example_hpa 10 10)) \<lparr>RestartThreshold = 3\<rparr> =
     Inr (''web has 10/10 replicas'', True, True)
   \<and> Detector ProblemMaxedOutHPAs (HPAObject (example_hpa 9 10)) \<lparr>RestartThreshold = 3\<rparr> =
     Inr ('''', False, False)"
  using MaxedOutHPAs_detector [of "example_hpa 10 10" "\<lparr>RestartThreshold = 3\<rparr>"]
    MaxedOutHPAs_detector [of "example_hpa 9 10" "\<lparr>RestartThreshold = 3\<rparr>"]
  by (simp add: example_hpa_def fmt_d_def digits.simps)

text \<open>
  C4 (as stated) fails: a pod with one container restarted 5 times, under
  \<open>restartThreshold = 3\<close>, is reported with the warning flag set, not as an error.
\<close>

theorem HighRestarts_is_warning:
  "Detector ProblemHighRestarts
     (PodObject (example_pod [example_status\<lparr>RestartCount := 5\<rparr>])) \<lparr>RestartThreshold = 3\<rparr> =
     Inr (''Container api has restarted 5 time(s)'', True, True)"
  by (simp add: problem_detectors HighRestarts_Detector_find example_pod_def example_status_def
        fmt_d_def digits.simps)

text \<open>
  The conversion \<open>int32(cfg.RestartThreshold)\<close> wraps a threshold outside the range of
  \<open>int32\<close>: under the threshold \<open>- 2147483649\<close> a restart count of 0 is at least the
  threshold, and the detector compares it with \<open>2147483647\<close> and reports nothing.
\<close>

lemma HighRestarts_threshold_wraps:
  "Detector ProblemHighRestarts (PodObject (example_pod [example_status]))
     \<lparr>RestartThreshold = - 2147483649\<rparr> = Inr ('''', False, False)"
  by (simp add: problem_detectors HighRestarts_Detector_find example_pod_def example_status_def)

lemma HighRestarts_Detector_in_range:
  assumes "- (2 ^ 31) \<le> sint (RestartThreshold cfg)" and "sint (RestartThreshold cfg) < 2 ^ 31"
  shows "Detector ProblemHighRestarts (PodObject pod) cfg =
        (case find (\<lambda>cs. sint (RestartThreshold cfg) \<le> sint (RestartCount cs))
                (ContainerStatuses pod) of
           None \<Rightarrow> Inr ('''', False, False)
         | Some cs \<Rightarrow> Inr (''Container '' @ PodName pod @ '' has restarted ''
                             @ fmt_d (sint (RestartCount cs)) @ '' time(s)'', True, True))"
proof -
  have "sint (ucast (RestartThreshold cfg) :: 32 word) = sint (RestartThreshold cfg)"
    using assms by (simp add: int32_of_int_in_range)
  then show ?thesis
    by (simp add: problem_detectors HighRestarts_Detector_find)
qed

lemma HighRestarts_scan_5_of_3:
  assumes a: "ContainerStatuses pod = [cs] \<and> RestartCount cs = 5 \<and> RestartThreshold cfg = 3
        \<and> Detector ProblemPodCrashLoopBackOff (PodObject pod) cfg = Inr r0"
  shows "\<exists>rs. getPodsWithProblems cfg pod = Inr (rs, True)
         \<and> filter (\<lambda>r. ProblemID r = ''HighRestarts'') rs =
             [\<lparr>Name = PodNamespace pod @ ''/'' @ PodName pod,
               Owner = label (PodLabels pod) ''reporting_team'',
               Type = ''pod'',
               ProblemID = ''HighRestarts'',
               ProblemDetails = ''Container '' @ PodName pod @ '' has restarted 5 time(s)'',
               Warning = True\<rparr>]"
proof -
  obtain d0 w0 o0 where r0: "r0 = (d0, w0, o0)" by (cases r0)
  obtain r1 r2 r3 where r:
    "PodNotReady_Detector (PodObject pod) cfg = Inr r1"
    "PodImagePullBackOff_Detector (PodObject pod) cfg = Inr r2"
    "PodOOMKilled_Detector (PodObject pod) cfg = Inr r3"
    using pod_detectors_total by metis
  obtain d1 w1 o1 d2 w2 o2 d3 w3 o3 where rr:
    "r1 = (d1, w1, o1)" "r2 = (d2, w2, o2)" "r3 = (d3, w3, o3)"
    by (metis prod_cases3)
  have hr: "HighRestarts_Detector (PodObject pod) cfg =
              Inr (''Container '' @ PodName pod @ '' has restarted 5 time(s)'', True, True)"
    using a by (simp add: HighRestarts_Detector_find fmt_d_def digits.simps)
  have tot: "\<forall>p \<in> set enabledPodProblems. \<exists>r. Detector p (PodObject pod) cfg = Inr r"
    using a r0 pod_detectors_total [of "PodObject pod" cfg]
    by (simp add: enabledPodProblems_def problem_detectors)
  define d where "d = \<lparr>Name = PodNamespace pod @ ''/'' @ PodName pod,
               Owner = label (PodLabels pod) ''reporting_team'',
               Type = ''pod'',
               ProblemID = '''', ProblemDetails = '''', Warning = False\<rparr>"
  define others where "others =
     (if o0 then [d\<lparr>ProblemID := ''PodCrashLoopBackOff'', ProblemDetails := d0, Warning := w0\<rparr>]
      else [])
     @ (if o1 then [d\<lparr>ProblemID := ''PodNotReady'', ProblemDetails := d1, Warning := w1\<rparr>]
        else [])
     @ (if o2 then [d\<lparr>ProblemID := ''PodImagePullBackOff'', ProblemDetails := d2, Warning := w2\<rparr>]
        else [])
     @ (if o3 then [d\<lparr>ProblemID := ''PodOOMKilled'', ProblemDetails := d3, Warning := w3\<rparr>]
        else [])"
  have scan: "detect_loop enabledPodProblems (PodObject pod) cfg d [] =
          Inr (others @ [d\<lparr>ProblemID := ''HighRestarts'',
                   ProblemDetails := ''Container '' @ PodName pod @ '' has restarted 5 time(s)'',
                   Warning := True\<rparr>])"
    unfolding detect_loop_all_Inr [OF tot]
    using a r rr r0 hr
    by (simp add: enabledPodProblems_def problem_detectors problem_ids others_def)
  have flt: "filter (\<lambda>r. ProblemID r = ''HighRestarts'') others = []"
    by (simp add: others_def)
  show ?thesis
    using scan flt by (simp add: getPodsWithProblems_def d_def)
qed

text \<open>
  C4 (amended): under a \<open>restartThreshold\<close> in the range of \<open>int32\<close>, for every pod
  having some container whose restart count is at least the threshold, the HighRestarts
  detector returns isOccurring = true with the warning flag set (isWarning = true) and the
  detail "Container <pod name> has restarted <n> time(s)", where n is the restart count of
  such a container (the first in listed order); with no such container it returns
  isOccurring = false. In particular a pod with one container restarted 5 times, scanned
  under \<open>restartThreshold = 3\<close> (the crash-loop detector not panicking on it), yields
  exactly one record with problemID "HighRestarts"; it has isWarning = true and the detail
  "Container <pod name> has restarted 5 time(s)".
\<close>

theorem HighRestarts_detector:
  "(- (2 ^ 31) \<le> sint (RestartThreshold cfg) \<and> sint (RestartThreshold cfg) < 2 ^ 31
      \<and> (\<exists>c \<in> set (ContainerStatuses pod). sint (RestartThreshold cfg) \<le> sint (RestartCount c))
    \<longrightarrow>
      (\<exists>c \<in> set (ContainerStatuses pod).
          sint (RestartThreshold cfg) \<le> sint (RestartCount c)
          \<and> find (\<lambda>cs. sint (RestartThreshold cfg) \<le> sint (RestartCount cs))
                (ContainerStatuses pod) = Some c
          \<and> Detector ProblemHighRestarts (PodObject pod) cfg =
              Inr (''Container '' @ PodName pod @ '' has restarted ''
                     @ fmt_d (sint (RestartCount c)) @ '' time(s)'', True, True)))
   \<and> (- (2 ^ 31) \<le> sint (RestartThreshold cfg) \<and> sint (RestartThreshold cfg) < 2 ^ 31
      \<and> (\<forall>c \<in> set (ContainerStatuses pod). sint (RestartCount c) < sint (RestartThreshold cfg))
    \<longrightarrow>
      Detector ProblemHighRestarts (PodObject pod) cfg = Inr ('''', False, False))
   \<and> (ContainerStatuses pod = [cs] \<and> RestartCount cs = 5 \<and> RestartThreshold cfg = 3
        \<and> Detector ProblemPodCrashLoopBackOff (PodObject pod) cfg = Inr r0 \<longrightarrow>
      (\<exists>rs. getPodsWithProblems cfg pod = Inr (rs, True)
         \<and> filter (\<lambda>r. ProblemID r = ''HighRestarts'') rs =
             [\<lparr>Name = PodNamespace pod @ ''/'' @ PodName pod,
               Owner = label (PodLabels pod) ''reporting_team'',
               Type = ''pod'',
               ProblemID = ''HighRestarts'',
               ProblemDetails = ''Container '' @ PodName pod @ '' has restarted 5 time(s)'',
               Warning = True\<rparr>]))"
proof -
  let ?P = "\<lambda>cs. sint (RestartThreshold cfg) \<le> sint (RestartCount cs)"
  let ?f = "find ?P (ContainerStatuses pod)"
  have hit: "\<exists>c \<in> set (ContainerStatuses pod). ?P c \<and> ?f = Some c
          \<and> Detector ProblemHighRestarts (PodObject pod) cfg =
              Inr (''Container '' @ PodName pod @ '' has restarted ''
                     @ fmt_d (sint (RestartCount c)) @ '' time(s)'', True, True)"
    if h: "- (2 ^ 31) \<le> sint (RestartThreshold cfg) \<and> sint (RestartThreshold cfg) < 2 ^ 31
      \<and> (\<exists>c \<in> set (ContainerStatuses pod). ?P c)"
  proof -
    from h obtain c where c: "?f = Some c"
      by (cases ?f) (auto simp: find_None_iff)
    then have m: "c \<in> set (ContainerStatuses pod)" "?P c"
      by (auto simp: find_Some_iff)
    have "Detector ProblemHighRestarts (PodObject pod) cfg =
              Inr (''Container '' @ PodName pod @ '' has restarted ''
                     @ fmt_d (sint (RestartCount c)) @ '' time(s)'', True, True)"
      using h c by (simp add: HighRestarts_Detector_in_range)
    with c m show ?thesis by blast
  qed
  have miss: "Detector ProblemHighRestarts (PodObject pod) cfg = Inr ('''', False, False)"
    if h: "- (2 ^ 31) \<le> sint (RestartThreshold cfg) \<and> sint (RestartThreshold cfg) < 2 ^ 31
      \<and> (\<forall>c \<in> set (ContainerStatuses pod). sint (RestartCount c) < sint (RestartThreshold cfg))"
  proof -
    from h have "?f = None"
      by (auto simp: find_None_iff)
    with h show ?thesis by (simp add: HighRestarts_Detector_in_range)
  qed
  from hit miss HighRestarts_scan_5_of_3 [of pod cs cfg r0] show ?thesis by blast
qed

theorem HighRestarts_detector_witness:
  "- (2 ^ 31) \<le> sint (3 :: 64 word) \<and> sint (3 :: 64 word) < 2 ^ 31
   \<and> sint (3 :: 64 word) \<le> sint (RestartCount (example_status\<lparr>RestartCount := 5\<rparr>))
   \<and> Detector ProblemPodCrashLoopBackOff
       (PodObject (example_pod [example_status\<lparr>RestartCount := 5\<rparr>])) \<lparr>RestartThreshold = 3\<rparr> =
       Inr ('''', False, False)
   \<and> Detector ProblemHighRestarts
       (PodObject (example_pod [example_status\<lparr>RestartCount := 5\<rparr>])) \<lparr>RestartThreshold = 3\<rparr> =
       Inr (''Container api has restarted 5 time(s)'', True, True)
   \<and> (\<exists>rs. getPodsWithProblems \<lparr>RestartThreshold = 3\<rparr>
               (example_pod [example_status\<lparr>RestartCount := 5\<rparr>]) = Inr (rs, True)
         \<and> filter (\<lambda>r. ProblemID r = ''HighRestarts'') rs =
             [\<lparr>Name = ''default/api'', Owner = '''', Type = ''pod'',
               ProblemID = ''HighRestarts'',
               ProblemDetails = ''Container api has restarted 5 time(s)'',
               Warning = True\<rparr>])"
proof -
  have c: "Detector ProblemPodCrashLoopBackOff
       (PodObject (example_pod [example_status\<lparr>RestartCount := 5\<rparr>])) \<lparr>RestartThreshold = 3\<rparr> =
       Inr ('''', False, False)"
    by (simp add: problem_detectors PodCrashLoopBackOff_Detector_def isCrashLoopBackoff_def
          example_pod_def example_status_def)
  show ?thesis
    using c HighRestarts_detector
      [of "\<lparr>RestartThreshold = 3\<rparr>" "example_pod [example_status\<lparr>RestartCount := 5\<rparr>]"
          "example_status\<lparr>RestartCount := 5\<rparr>" "('''', False, False)"]
    by (simp add: example_pod_def example_status_def label_def fmt_d_def digits.simps)
qed

text \<open>
  C5: the PodCrashLoopBackOff detector is claimed to return without failing on every pod,
  also on one with a container waiting with reason "CrashLoopBackOff" and no
  last-termination terminated state. On that pod the detector dereferences the nil
  \<open>LastTerminationState.Terminated\<close> pointer and panics.
\<close>

theorem PodCrashLoopBackOff_panics:
  "Detector ProblemPodCrashLoopBackOff
     (PodObject (example_pod
        [example_status\<lparr>State := \<lparr>Waiting = Some example_crash_loop, Terminated = None\<rparr>,
                         Ready := False\<rparr>]))
     \<lparr>RestartThreshold = 3\<rparr>
   = Inl NilPointerDereference"
  by (simp add: problem_detectors PodCrashLoopBackOff_Detector_def isCrashLoopBackoff_def
        example_pod_def example_status_def example_crash_loop_def)

text \<open>
  C6 (as stated) fails: in the pod below the second container is currently terminated with
  reason "OOMKilled", and the detector stops at the first container, whose last
  termination has that reason, and returns a warning.
\<close>

theorem PodOOMKilled_first_container_decides:
  "currentOOMKilled (example_status\<lparr>StatusName := ''db'',
                        State := \<lparr>Waiting = None, Terminated = Some example_oom\<rparr>\<rparr>)
   \<and> Detector ProblemPodOOMKilled
       (PodObject (example_pod
          [example_status\<lparr>LastTerminationState := \<lparr>Waiting = None, Terminated = Some example_oom\<rparr>\<rparr>,
           example_status\<lparr>StatusName := ''db'',
                           State := \<lparr>Waiting = None, Terminated = Some example_oom\<rparr>\<rparr>]))
       \<lparr>RestartThreshold = 3\<rparr>
     = Inr (''Container app was recently killed because it ran out of memory: 2023-03-01 12:00:00 +0000 UTC'',
            True, True)"
  by (simp add: problem_detectors PodOOMKilled_Detector_def currentOOMKilled_def
        example_pod_def example_status_def example_oom_def)

text \<open>
  C6 (amended): for every pod, the first container, in listed order, that is currently
  terminated with reason "OOMKilled" or whose last termination state has that reason
  decides the result of the PodOOMKilled detector: if it is currently so terminated the
  detector returns isOccurring = true with isWarning = false (Error); otherwise it returns
  isOccurring = true with isWarning = true (Warning) and a detail that includes the
  termination finish timestamp. In particular, if no container is currently so terminated
  but some container's last termination state has reason "OOMKilled", the result is the
  Warning with the timestamp; and if some container is currently so terminated and every
  container whose last termination has that reason is currently so terminated too, the
  result is the Error.
\<close>

theorem PodOOMKilled_detector:
  "Detector ProblemPodOOMKilled (PodObject pod) cfg =
     (case find (\<lambda>cs. currentOOMKilled cs \<or> lastOOMKilled cs) (ContainerStatuses pod) of
        None \<Rightarrow> Inr ('''', False, False)
      | Some cs \<Rightarrow>
          if currentOOMKilled cs
          then Inr (''Container '' @ StatusName cs
                      @ '' was killed because it ran out of memory'', False, True)
          else Inr (''Container '' @ StatusName cs
                      @ '' was recently killed because it ran out of memory: ''
                      @ TimeString (FinishedAt (the (Terminated (LastTerminationState cs)))),
                    True, True))
   \<and> ((\<forall>cs \<in> set (ContainerStatuses pod). \<not> currentOOMKilled cs)
        \<and> (\<exists>cs \<in> set (ContainerStatuses pod). lastOOMKilled cs) \<longrightarrow>
      (\<exists>cs t. cs \<in> set (ContainerStatuses pod)
         \<and> Terminated (LastTerminationState cs) = Some t
         \<and> TerminatedReason t = ''OOMKilled''
         \<and> Detector ProblemPodOOMKilled (PodObject pod) cfg =
             Inr (''Container '' @ StatusName cs
                    @ '' was recently killed because it ran out of memory: ''
                    @ TimeString (FinishedAt t), True, True)))
   \<and> ((\<exists>cs \<in> set (ContainerStatuses pod). currentOOMKilled cs)
        \<and> (\<forall>cs \<in> set (ContainerStatuses pod). lastOOMKilled cs \<longrightarrow> currentOOMKilled cs) \<longrightarrow>
      (\<exists>cs. cs \<in> set (ContainerStatuses pod) \<and> currentOOMKilled cs
         \<and> Detector ProblemPodOOMKilled (PodObject pod) cfg =
             Inr (''Container '' @ StatusName cs
                    @ '' was killed because it ran out of memory'', False, True)))"
proof -
  let ?f = "find (\<lambda>cs. currentOOMKilled cs \<or> lastOOMKilled cs) (ContainerStatuses pod)"
  have eq: "Detector ProblemPodOOMKilled (PodObject pod) cfg =
     (case ?f of
        None \<Rightarrow> Inr ('''', False, False)
      | Some cs \<Rightarrow>
          if currentOOMKilled cs
          then Inr (''Container '' @ StatusName cs
                      @ '' was killed because it ran out of memory'', False, True)
          else Inr (''Container '' @ StatusName cs
                      @ '' was recently killed because it ran out of memory: ''
                      @ TimeString (FinishedAt (the (Terminated (LastTerminationState cs)))),
                    True, True))"
    by (simp add: problem_detectors PodOOMKilled_Detector_def OOMKilled_loop_find
          split: option.splits)
  have warn: "\<exists>cs t. cs \<in> set (ContainerStatuses pod)
         \<and> Terminated (LastTerminationState cs) = Some t
         \<and> TerminatedReason t = ''OOMKilled''
         \<and> Detector ProblemPodOOMKilled (PodObject pod) cfg =
             Inr (''Container '' @ StatusName cs
                    @ '' was recently killed because it ran out of memory: ''
                    @ TimeString (FinishedAt t), True, True)"
    if h: "(\<forall>cs \<in> set (ContainerStatuses pod). \<not> currentOOMKilled cs)
        \<and> (\<exists>cs \<in> set (ContainerStatuses pod). lastOOMKilled cs)"
  proof -
    from h obtain cs where cs: "?f = Some cs"
      by (cases ?f) (auto simp: find_None_iff)
    then have m: "cs \<in> set (ContainerStatuses pod)" "currentOOMKilled cs \<or> lastOOMKilled cs"
      by (auto simp: find_Some_iff)
    with h have l: "lastOOMKilled cs" "\<not> currentOOMKilled cs" by auto
    then obtain t where t: "Terminated (LastTerminationState cs) = Some t"
        "TerminatedReason t = ''OOMKilled''"
      by (auto simp: lastOOMKilled_def split: option.splits)
    show ?thesis
      using eq cs m(1) l(2) t by (intro exI [of _ cs] exI [of _ t]) simp
  qed
  have err: "\<exists>cs. cs \<in> set (ContainerStatuses pod) \<and> currentOOMKilled cs
         \<and> Detector ProblemPodOOMKilled (PodObject pod) cfg =
             Inr (''Container '' @ StatusName cs
                    @ '' was killed because it ran out of memory'', False, True)"
    if h: "(\<exists>cs \<in> set (ContainerStatuses pod). currentOOMKilled cs)
        \<and> (\<forall>cs \<in> set (ContainerStatuses pod). lastOOMKilled cs \<longrightarrow> currentOOMKilled cs)"
  proof -
    from h obtain cs where cs: "?f = Some cs"
      by (cases ?f) (auto simp: find_None_iff)
    then have m: "cs \<in> set (ContainerStatuses pod)" "currentOOMKilled cs \<or> lastOOMKilled cs"
      by (auto simp: find_Some_iff)
    with h have c: "currentOOMKilled cs" by auto
    show ?thesis
      using eq cs m(1) c by (intro exI [of _ cs]) simp
  qed
  from eq warn err show ?thesis by blast
qed

theorem PodOOMKilled_detector_witness:
  "\<not> currentOOMKilled
        (example_status\<lparr>LastTerminationState := \<lparr>Waiting = None, Terminated = Some example_oom\<rparr>\<rparr>)
   \<and> lastOOMKilled
        (example_status\<lparr>LastTerminationState := \<lparr>Waiting = None, Terminated = Some example_oom\<rparr>\<rparr>)
   \<and> Detector ProblemPodOOMKilled
       (PodObject (example_pod
          [example_status\<lparr>LastTerminationState := \<lparr>Waiting = None, Terminated = Some example_oom\<rparr>\<rparr>]))
       \<lparr>RestartThreshold = 3\<rparr>
     = Inr (''Container app was recently killed because it ran out of memory: 2023-03-01 12:00:00 +0000 UTC'',
            True, True)
   \<and> currentOOMKilled
        (example_status\<lparr>State := \<lparr>Waiting = None, Terminated = Some example_oom\<rparr>\<rparr>)
   \<and> Detector ProblemPodOOMKilled
       (PodObject (example_pod
          [example_status\<lparr>State := \<lparr>Waiting = None, Terminated = Some example_oom\<rparr>\<rparr>]))
       \<lparr>RestartThreshold = 3\<rparr>
     = Inr (''Container app was killed because it ran out of memory'', False, True)"
  using PodOOMKilled_detector
      [of "example_pod
             [example_status\<lparr>LastTerminationState := \<lparr>Waiting = None, Terminated = Some example_oom\<rparr>\<rparr>]"
          "\<lparr>RestartThreshold = 3\<rparr>"]
    PodOOMKilled_detector
      [of "example_pod
             [example_status\<lparr>State := \<lparr>Waiting = None, Terminated = Some example_oom\<rparr>\<rparr>]"
          "\<lparr>RestartThreshold = 3\<rparr>"]
  by (simp add: currentOOMKilled_def lastOOMKilled_def example_pod_def example_status_def
        example_oom_def)

text \<open>
  C7: every detector, invoked with a resource of a kind other than the one it targets,
  returns isOccurring = false and does not panic: each detector of the pod sub-catalog on
  an autoscaler (and on any other object), the MaxedOutHPAs detector on a pod (and on any
  other object), and the PodPending detector, which no sub-catalog lists, likewise.
\<close>

theorem detectors_wrong_kind:
  "(\<forall>p \<in> set enabledPodProblems.
       Detector p (HPAObject hpa) cfg = Inr ('''', False, False)
       \<and> Detector p OtherObject cfg = Inr ('''', False, False))
   \<and> Detector ProblemPodPending (HPAObject hpa) cfg = Inr ('''', False, False)
   \<and> (\<forall>p \<in> set enabledHPAProblems.
       Detector p (PodObject pod) cfg = Inr ('''', False, False)
       \<and> Detector p OtherObject cfg = Inr ('''', False, False))"
  by (simp add: enabledPodProblems_def enabledHPAProblems_def problem_detectors detector_defs)

theorem detectors_wrong_kind_witness:
  "ProblemPodCrashLoopBackOff \<in> set enabledPodProblems
   \<and> Detector ProblemPodCrashLoopBackOff (HPAObject (example_hpa 10 10)) \<lparr>RestartThreshold = 3\<rparr> =
       Inr ('''', False, False)
   \<and> ProblemMaxedOutHPAs \<in> set enabledHPAProblems
   \<and> Detector ProblemMaxedOutHPAs (PodObject (example_pod [example_status]))
       \<lparr>RestartThreshold = 3\<rparr> = Inr ('''', False, False)"
proof -
  have m: "ProblemPodCrashLoopBackOff \<in> set enabledPodProblems"
    "ProblemMaxedOutHPAs \<in> set enabledHPAProblems"
    by (simp_all add: enabledPodProblems_def enabledHPAProblems_def)
  show ?thesis
    using m detectors_wrong_kind
      [of "example_hpa 10 10" "\<lparr>RestartThreshold = 3\<rparr>" "example_pod [example_status]"]
    by blast
qed

section \<open>The claim about the command\<close>

text \<open>
  C8: a checkup run whose client and listings succeed and whose scan over both resource
  kinds produces zero problem records prints the all-clear line and returns nil, which is
  process status 0; a run whose scan produces at least one problem record renders the
  report and calls \<open>os.Exit(1)\<close>, whatever the order in which the maps are visited.
\<close>

theorem checkup_exit_status:
  assumes "GetKubeClient k = None" and "ListPods k = Inr pods" and "ListHPAs k = Inr hpas"
    and "scan_pods cfg pods [] = Inr podProblems"
    and "scan_hpas cfg hpas podProblems = Inr rs"
  shows "(rs = [] \<longrightarrow>
            Run ord cfg k = ([Checking, Done, EverythingLooksGood], ReturnNil)
            \<and> exitStatus (snd (Run ord cfg k)) = Some 0)
         \<and> (rs \<noteq> [] \<longrightarrow>
            (\<exists>bySeverity. BySeverity (ReportFromResources rs) = Inr bySeverity
               \<and> Run ord cfg k =
                   ([Checking, Done, ProblemsFound]
                    @ render_severities (ReportFromResources rs) bySeverity
                        (problemOrder ord) (severityOrder ord)
                    @ [MoreInformation]
                    @ render_help (ReportFromResources rs) (ByProblem (ReportFromResources rs))
                        (helpOrder ord),
                    Exit 1))
            \<and> exitStatus (snd (Run ord cfg k)) = Some 1)"
proof -
  have ok: "Run ord cfg k = ([Checking, Done, EverythingLooksGood], ReturnNil)
            \<and> exitStatus (snd (Run ord cfg k)) = Some 0" if "rs = []"
    using assms that by (simp add: Run_def exitStatus_def)
  have bad: "(\<exists>bySeverity. BySeverity (ReportFromResources rs) = Inr bySeverity
               \<and> Run ord cfg k =
                   ([Checking, Done, ProblemsFound]
                    @ render_severities (ReportFromResources rs) bySeverity
                        (problemOrder ord) (severityOrder ord)
                    @ [MoreInformation]
                    @ render_help (ReportFromResources rs) (ByProblem (ReportFromResources rs))
                        (helpOrder ord),
                    Exit 1))
            \<and> exitStatus (snd (Run ord cfg k)) = Some 1" if ne: "rs \<noteq> []"
  proof -
    obtain M where M: "BySeverity (ReportFromResources rs) = Inr M"
      using BySeverity_eq [of "ReportFromResources rs"] by blast
    have run: "Run ord cfg k =
                   ([Checking, Done, ProblemsFound]
                    @ render_severities (ReportFromResources rs) M
                        (problemOrder ord) (severityOrder ord)
                    @ [MoreInformation]
                    @ render_help (ReportFromResources rs) (ByProblem (ReportFromResources rs))
                        (helpOrder ord),
                    Exit 1)"
      using assms ne M by (simp add: Run_def Let_def)
    then have "exitStatus (snd (Run ord cfg k)) = Some 1"
      by (simp add: exitStatus_def)
    with M run show ?thesis by blast
  qed
  from ok bad show ?thesis by blast
qed

theorem checkup_exit_status_witness:
  "Run example_order \<lparr>RestartThreshold = 3\<rparr>
      \<lparr>GetKubeClient = None, ListPods = Inr [example_pod [example_status]], ListHPAs = Inr []\<rparr> =
     ([Checking, Done, EverythingLooksGood], ReturnNil)
   \<and> exitStatus (snd (Run example_order \<lparr>RestartThreshold = 3\<rparr>
        \<lparr>GetKubeClient = None, ListPods = Inr [example_pod [example_status]],
         ListHPAs = Inr []\<rparr>)) = Some 0
   \<and> exitStatus (snd (Run example_order \<lparr>RestartThreshold = 3\<rparr>
        \<lparr>GetKubeClient = None, ListPods = Inr [example_pod [example_status]],
         ListHPAs = Inr [example_hpa 10 10]\<rparr>)) = Some 1"
proof -
  let ?cfg = "\<lparr>RestartThreshold = 3\<rparr>"
  let ?k0 = "\<lparr>GetKubeClient = None, ListPods = Inr [example_pod [example_status]],
              ListHPAs = Inr []\<rparr>"
  let ?k1 = "\<lparr>GetKubeClient = None, ListPods = Inr [example_pod [example_status]],
              ListHPAs = Inr [example_hpa 10 10]\<rparr>"
  let ?r = "\<lparr>Name = ''default/web'', Owner = '''', Type = ''HPA'',
             ProblemID = ''MaxedOutHPAs'', ProblemDetails = ''web has 10/10 replicas'',
             Warning = True\<rparr>"
  have pods: "scan_pods ?cfg [example_pod [example_status]] [] = Inr []"
    by (simp add: getPodsWithProblems_def enabledPodProblems_def problem_detectors problem_ids
          detector_defs HighRestarts_loop_find isCrashLoopBackoff_def isImagePullBackOff_def
          getImageForContainerStatus_def currentOOMKilled_def PodRunning_def
          example_pod_def example_status_def)
  have hpas0: "scan_hpas ?cfg [] [] = Inr []"
    by simp
  have hpas1: "scan_hpas ?cfg [example_hpa 10 10] [] = Inr [?r]"
    by (simp add: getHPAsWithProblems_def enabledHPAProblems_def problem_detectors problem_ids
          MaxedOutHPAs_Detector_def label_def example_hpa_def fmt_d_def digits.simps)
  have k0: "GetKubeClient ?k0 = None" "ListPods ?k0 = Inr [example_pod [example_status]]"
    "ListHPAs ?k0 = Inr []"
    by simp_all
  have k1: "GetKubeClient ?k1 = None" "ListPods ?k1 = Inr [example_pod [example_status]]"
    "ListHPAs ?k1 = Inr [example_hpa 10 10]"
    by simp_all
  show ?thesis
    using checkup_exit_status [OF k0 pods hpas0, of example_order]
      checkup_exit_status [OF k1 pods hpas1, of example_order]
    by blast
qed

end
